theory Spec2Isabelle
  imports Main "HOL-Library.Stream"
begin

section \<open>Python values read by the handler\<close>

text \<open>
  The sidecar (\<^verbatim>\<open>sidecar/handler.py\<close>) reads JSON that \<^verbatim>\<open>json.loads\<close> has decoded
  into Python values.  \<open>json\<close> is that value space: \<^verbatim>\<open>None\<close>, \<^verbatim>\<open>bool\<close>, \<^verbatim>\<open>int\<close>,
  \<^verbatim>\<open>float\<close>, \<^verbatim>\<open>str\<close>, \<^verbatim>\<open>list\<close> and \<^verbatim>\<open>dict\<close>.  A float is carried as the text that
  \<^verbatim>\<open>str()\<close> prints for it: the handler never computes with numbers, it only prints them.
  A dict is an association list in insertion order (the order \<^verbatim>\<open>.items()\<close> iterates in),
  looked up with \<open>map_of\<close>.  The same datatype is used for the dicts the handler builds
  (job results, artifact descriptors, callback payloads).
\<close>

datatype json =
    JNull
  | JBool bool
  | JInt int
  | JFloat string
  | JStr string
  | JList "json list"
  | JDict "(string \<times> json) list"

text \<open>
  Exceptions are values.  The classes the handler raises or tells apart are constructors;
  everything else a library call may raise is \<open>OtherError\<close>.  The argument is what
  \<^verbatim>\<open>str(e)\<close> prints, except for \<open>KeyError\<close>, whose argument is the missing key.
\<close>

datatype exn =
    WebSocketConnectionClosedException string
  | AttributeError string
  | KeyError string
  | ValueError string
  | OtherError string

datatype 'a outcome = Returns 'a | Raises exn

subsection \<open>Printing values: \<^verbatim>\<open>str()\<close> and \<^verbatim>\<open>repr()\<close>\<close>

fun show_nat :: "nat \<Rightarrow> string" where
  "show_nat n =
     (if n < 10 then [''0123456789'' ! n]
      else show_nat (n div 10) @ [''0123456789'' ! (n mod 10)])"

definition show_int :: "int \<Rightarrow> string" where
  "show_int i = (if i < 0 then CHR ''-'' # show_nat (nat (- i)) else show_nat (nat i))"

definition squote :: char where
  "squote = CHR 0x27"

definition dquote :: char where
  "dquote = CHR 0x22"

definition backslash :: char where
  "backslash = CHR 0x5C"

text \<open>
  \<^verbatim>\<open>repr\<close> of a \<^verbatim>\<open>str\<close>: single quotes, unless the text holds a single quote and no
  double quote; the quote in use, the backslash, newline, carriage return and tab are
  escaped.  (Texts are taken to be printable ASCII apart from these.)
\<close>

definition repr_char :: "char \<Rightarrow> char \<Rightarrow> string" where
  "repr_char q c =
     (if c = backslash then [backslash, backslash]
      else if c = q then [backslash, q]
      else if c = CHR 0x0A then [backslash, CHR ''n'']
      else if c = CHR 0x0D then [backslash, CHR ''r'']
      else if c = CHR 0x09 then [backslash, CHR ''t'']
      else [c])"

definition repr_str :: "string \<Rightarrow> string" where
  "repr_str s =
     (let q = (if squote \<in> set s \<and> dquote \<notin> set s then dquote else squote)
      in [q] @ concat (map (repr_char q) s) @ [q])"

fun join :: "string \<Rightarrow> string list \<Rightarrow> string" where
  "join sep [] = []"
| "join sep [x] = x"
| "join sep (x # y # ys) = x @ sep @ join sep (y # ys)"

fun py_repr :: "json \<Rightarrow> string" where
  "py_repr JNull = ''None''"
| "py_repr (JBool b) = (if b then ''True'' else ''False'')"
| "py_repr (JInt i) = show_int i"
| "py_repr (JFloat s) = s"
| "py_repr (JStr s) = repr_str s"
| "py_repr (JList xs) = ''['' @ join '', '' (map py_repr xs) @ '']''"
| "py_repr (JDict kvs) =
     ''{'' @ join '', '' (map (\<lambda>(k, v). repr_str k @ '': '' @ py_repr v) kvs) @ ''}''"

text \<open>\<^verbatim>\<open>str(v)\<close>, which an f-string applies to each field: a \<^verbatim>\<open>str\<close> prints as itself.\<close>

fun py_str :: "json \<Rightarrow> string" where
  "py_str (JStr s) = s"
| "py_str v = py_repr v"

fun type_name :: "json \<Rightarrow> string" where
  "type_name JNull = ''NoneType''"
| "type_name (JBool b) = ''bool''"
| "type_name (JInt i) = ''int''"
| "type_name (JFloat s) = ''float''"
| "type_name (JStr s) = ''str''"
| "type_name (JList xs) = ''list''"
| "type_name (JDict kvs) = ''dict''"

fun str_exn :: "exn \<Rightarrow> string" where
  "str_exn (WebSocketConnectionClosedException m) = m"
| "str_exn (AttributeError m) = m"
| "str_exn (KeyError k) = repr_str k"
| "str_exn (ValueError m) = m"
| "str_exn (OtherError m) = m"

subsection \<open>\<^verbatim>\<open>.get\<close>\<close>

text \<open>
  \<^verbatim>\<open>v.get(k, default)\<close>: the value under \<open>k\<close> of a dict, the default when the key is
  absent, and an \<^verbatim>\<open>AttributeError\<close> when \<open>v\<close> is not a dict.  \<^verbatim>\<open>v.get(k)\<close> has the
  default \<^verbatim>\<open>None\<close>.
\<close>

fun py_get_default :: "json \<Rightarrow> string \<Rightarrow> json \<Rightarrow> exn + json" where
  "py_get_default (JDict kvs) k d = Inr (case map_of kvs k of None \<Rightarrow> d | Some v \<Rightarrow> v)"
| "py_get_default v k d =
     Inl (AttributeError ([squote] @ type_name v @ [squote] @ '' object has no attribute '' @
          [squote] @ ''get'' @ [squote]))"

definition py_get :: "json \<Rightarrow> string \<Rightarrow> exn + json" where
  "py_get v k = py_get_default v k JNull"

section \<open>The event stream monitor\<close>

subsection \<open>Configuration\<close>

text \<open>
  The module constants.  \<^verbatim>\<open>WEBSOCKET_RECONNECT_ATTEMPTS\<close> and
  \<^verbatim>\<open>WEBSOCKET_RECONNECT_DELAY_S\<close> are read from the process environment with \<^verbatim>\<open>int(...)\<close>,
  so they are integers of either sign; they are parameters of the model.
\<close>

record config =
  WEBSOCKET_RECONNECT_ATTEMPTS :: int
  WEBSOCKET_RECONNECT_DELAY_S :: int

definition COMFY_HOST :: string where
  "COMFY_HOST = ''127.0.0.1:8188''"

subsection \<open>\<^verbatim>\<open>_reconnect_websocket\<close>\<close>

text \<open>
  What the network answers to the \<open>i\<close>-th pass of the reconnect loop: the liveness probe
  (\<^verbatim>\<open>requests.get(...).raise_for_status()\<close>) fails, or it succeeds and
  \<^verbatim>\<open>new_ws.connect\<close> raises, or both succeed.  What the function does is recorded as a list
  of actions, in order.
\<close>

datatype attempt = ProbeFails | ConnectFails | ConnectOk

datatype action = Probe | Connect string | Sleep int

text \<open>
  The \<^verbatim>\<open>for attempt in range(n)\<close> loop, from pass \<open>i\<close> with \<open>n\<close> passes left.  \<open>None\<close>: the
  loop ran to its end without returning or raising.  The connection returned is named by
  the URL it was opened on.  After a failed connection attempt the handler calls
  \<^verbatim>\<open>time.sleep(WEBSOCKET_RECONNECT_DELAY_S)\<close>, which raises \<^verbatim>\<open>ValueError\<close> for a negative
  delay; raised inside the \<^verbatim>\<open>except\<close> handler, it leaves the function.
\<close>

fun reconnect_loop ::
  "string \<Rightarrow> int \<Rightarrow> (nat \<Rightarrow> attempt) \<Rightarrow> nat \<Rightarrow> nat \<Rightarrow> (string outcome) option \<times> action list" where
  "reconnect_loop ws_url delay net i 0 = (None, [])"
| "reconnect_loop ws_url delay net i (Suc n) =
     (case net i of
        ProbeFails \<Rightarrow>
          (Some (Raises (WebSocketConnectionClosedException
                   ''ComfyUI unreachable during reconnect'')), [Probe])
      | ConnectOk \<Rightarrow> (Some (Returns ws_url), [Probe, Connect ws_url])
      | ConnectFails \<Rightarrow>
          if delay < 0 then
            (Some (Raises (ValueError ''sleep length must be non-negative'')),
             [Probe, Connect ws_url])
          else
            (let (r, acts) = reconnect_loop ws_url delay net (Suc i) n
             in (r, [Probe, Connect ws_url, Sleep delay] @ acts)))"

definition reconnect_websocket ::
  "config \<Rightarrow> string \<Rightarrow> (nat \<Rightarrow> attempt) \<Rightarrow> string outcome \<times> action list" where
  "reconnect_websocket cfg ws_url net =
     (case reconnect_loop ws_url (WEBSOCKET_RECONNECT_DELAY_S cfg) net 0
             (nat (WEBSOCKET_RECONNECT_ATTEMPTS cfg)) of
        (Some r, acts) \<Rightarrow> (r, acts)
      | (None, acts) \<Rightarrow>
          (Raises (WebSocketConnectionClosedException
             (''Failed to reconnect after '' @ show_int (WEBSOCKET_RECONNECT_ATTEMPTS cfg) @
              '' attempts'')), acts))"

subsection \<open>\<^verbatim>\<open>_monitor_execution\<close>\<close>

text \<open>
  One call of \<^verbatim>\<open>ws.recv()\<close> yields a frame:
  \<^item> \<open>RecvBytes\<close>: a value that is not a \<^verbatim>\<open>str\<close> (a binary frame);
  \<^item> \<open>RecvStr j\<close>: a text frame, with what \<^verbatim>\<open>json.loads\<close> makes of it: \<open>Some v\<close>, or
    \<open>None\<close> when it raises \<^verbatim>\<open>JSONDecodeError\<close>;
  \<^item> \<open>RecvTimeout\<close>: \<^verbatim>\<open>WebSocketTimeoutException\<close>;
  \<^item> \<open>RecvClosed net\<close>: \<^verbatim>\<open>WebSocketConnectionClosedException\<close>, with the network's
    answers to the reconnection that follows;
  \<^item> \<open>RecvRaises e\<close>: any other exception.
  The socket is the stream of the frames still to come; after a reconnection the stream
  goes on with the frames of the new connection.
\<close>

datatype frame =
    RecvBytes
  | RecvStr "json option"
  | RecvTimeout
  | RecvClosed "nat \<Rightarrow> attempt"
  | RecvRaises exn

text \<open>
  What one pass of the loop does: go round again, or leave the function, by
  \<^verbatim>\<open>return\<close> or by an exception that no \<^verbatim>\<open>except\<close> clause catches.
\<close>

datatype step = Continue | Stop "(bool \<times> string list) outcome"

definition error_entry :: "json \<Rightarrow> json \<Rightarrow> json \<Rightarrow> string" where
  "error_entry node_id node_type exception_message =
     ''Node '' @ py_str node_id @ '' ('' @ py_str node_type @ ''): '' @ py_str exception_message"

text \<open>
  The body of the \<^verbatim>\<open>try\<close> after \<^verbatim>\<open>json.loads\<close>.  \<^verbatim>\<open>.get\<close> on a value that is not a
  dict raises \<^verbatim>\<open>AttributeError\<close>, which none of the \<^verbatim>\<open>except\<close> clauses catches.
\<close>

definition handle_message :: "string \<Rightarrow> string list \<Rightarrow> json \<Rightarrow> step" where
  "handle_message prompt_id errors msg =
     (case py_get msg ''type'' of
        Inl e \<Rightarrow> Stop (Raises e)
      | Inr msg_type \<Rightarrow>
          if msg_type = JStr ''executing'' then
            (case py_get_default msg ''data'' (JDict []) of
               Inl e \<Rightarrow> Stop (Raises e)
             | Inr data \<Rightarrow>
                 (case py_get data ''node'' of
                    Inl e \<Rightarrow> Stop (Raises e)
                  | Inr node \<Rightarrow>
                      if node = JNull then
                        (case py_get data ''prompt_id'' of
                           Inl e \<Rightarrow> Stop (Raises e)
                         | Inr p \<Rightarrow>
                             if p = JStr prompt_id then Stop (Returns (True, errors))
                             else Continue)
                      else Continue))
          else if msg_type = JStr ''execution_error'' then
            (case py_get_default msg ''data'' (JDict []) of
               Inl e \<Rightarrow> Stop (Raises e)
             | Inr data \<Rightarrow>
                 (case py_get data ''prompt_id'' of
                    Inl e \<Rightarrow> Stop (Raises e)
                  | Inr p \<Rightarrow>
                      if p = JStr prompt_id then
                        (case py_get data ''node_id'' of
                           Inl e \<Rightarrow> Stop (Raises e)
                         | Inr node_id \<Rightarrow>
                             (case py_get data ''node_type'' of
                                Inl e \<Rightarrow> Stop (Raises e)
                              | Inr node_type \<Rightarrow>
                                  (case py_get data ''exception_message'' of
                                     Inl e \<Rightarrow> Stop (Raises e)
                                   | Inr exception_message \<Rightarrow>
                                       Stop (Returns (False,
                                         errors @
                                         [error_entry node_id node_type exception_message])))))
                      else Continue))
          else Continue)"

text \<open>
  One pass of the \<^verbatim>\<open>while True\<close> loop on the frame that \<^verbatim>\<open>ws.recv()\<close> yields, with
  its \<^verbatim>\<open>except\<close> clauses: a timeout and a \<^verbatim>\<open>JSONDecodeError\<close> go round again, a closed
  connection calls \<^verbatim>\<open>_reconnect_websocket\<close> (whose exception, raised inside the handler,
  leaves the function), any other exception leaves the function.
\<close>

definition monitor_iteration ::
  "config \<Rightarrow> string \<Rightarrow> string \<Rightarrow> string list \<Rightarrow> frame \<Rightarrow> step" where
  "monitor_iteration cfg ws_url prompt_id errors out =
     (case out of
        RecvBytes \<Rightarrow> Continue
      | RecvStr None \<Rightarrow> Continue
      | RecvStr (Some msg) \<Rightarrow> handle_message prompt_id errors msg
      | RecvTimeout \<Rightarrow> Continue
      | RecvClosed net \<Rightarrow>
          (case fst (reconnect_websocket cfg ws_url net) of
             Returns new_ws \<Rightarrow> Continue
           | Raises e \<Rightarrow> Stop (Raises e))
      | RecvRaises e \<Rightarrow> Stop (Raises e))"

text \<open>
  The loop has no bound, so it is a partial function: \<open>None\<close> is a run that never
  returns.  A run that ends gives what the call did (return a pair or raise) and the
  frames it left unread.
\<close>

partial_function (option) monitor_loop ::
  "config \<Rightarrow> string \<Rightarrow> string \<Rightarrow> string list \<Rightarrow> frame stream \<Rightarrow>
     ((bool \<times> string list) outcome \<times> frame stream) option" where
  "monitor_loop cfg ws_url prompt_id errors ws =
     (case monitor_iteration cfg ws_url prompt_id errors (shd ws) of
        Continue \<Rightarrow> monitor_loop cfg ws_url prompt_id errors (stl ws)
      | Stop r \<Rightarrow> Some (r, stl ws))"

declare monitor_loop.simps [code]

definition monitor_execution ::
  "config \<Rightarrow> string \<Rightarrow> string \<Rightarrow> frame stream \<Rightarrow>
     ((bool \<times> string list) outcome \<times> frame stream) option" where
  "monitor_execution cfg ws_url prompt_id ws = monitor_loop cfg ws_url prompt_id [] ws"

subsection \<open>The events the monitor tells apart\<close>

text \<open>
  The two significant events, as the protocol describes them.  A completion event is an
  object of type \<^verbatim>\<open>executing\<close> whose \<^verbatim>\<open>data\<close> object has no node (the key is absent, or
  its value is \<^verbatim>\<open>null\<close>) and carries the execution handle as \<^verbatim>\<open>prompt_id\<close>.  An error
  event is an object of type \<^verbatim>\<open>execution_error\<close> whose \<^verbatim>\<open>data\<close> object carries the
  handle.  A progress event is an object of type \<^verbatim>\<open>executing\<close> whose \<^verbatim>\<open>data\<close> object names
  a node.
\<close>

fun completion_event :: "string \<Rightarrow> json \<Rightarrow> bool" where
  "completion_event prompt_id (JDict kvs) =
     (map_of kvs ''type'' = Some (JStr ''executing'') \<and>
      (case map_of kvs ''data'' of
         Some (JDict d) \<Rightarrow>
           (map_of d ''node'' = None \<or> map_of d ''node'' = Some JNull) \<and>
           map_of d ''prompt_id'' = Some (JStr prompt_id)
       | _ \<Rightarrow> False))"
| "completion_event prompt_id v = False"

fun error_event :: "string \<Rightarrow> json \<Rightarrow> bool" where
  "error_event prompt_id (JDict kvs) =
     (map_of kvs ''type'' = Some (JStr ''execution_error'') \<and>
      (case map_of kvs ''data'' of
         Some (JDict d) \<Rightarrow> map_of d ''prompt_id'' = Some (JStr prompt_id)
       | _ \<Rightarrow> False))"
| "error_event prompt_id v = False"

fun progress_event :: "json \<Rightarrow> bool" where
  "progress_event (JDict kvs) =
     (map_of kvs ''type'' = Some (JStr ''executing'') \<and>
      (case map_of kvs ''data'' of
         Some (JDict d) \<Rightarrow> map_of d ''node'' \<noteq> None \<and> map_of d ''node'' \<noteq> Some JNull
       | _ \<Rightarrow> False))"
| "progress_event v = False"

text \<open>The value under key \<open>k\<close> of an event's \<^verbatim>\<open>data\<close> object, \<^verbatim>\<open>None\<close> when there is none.\<close>

fun data_field :: "json \<Rightarrow> string \<Rightarrow> json" where
  "data_field (JDict kvs) k =
     (case map_of kvs ''data'' of
        Some (JDict d) \<Rightarrow> (case map_of d k of None \<Rightarrow> JNull | Some v \<Rightarrow> v)
      | _ \<Rightarrow> JNull)"
| "data_field v k = JNull"


definition example_config :: config where
  "example_config = \<lparr>WEBSOCKET_RECONNECT_ATTEMPTS = 5, WEBSOCKET_RECONNECT_DELAY_S = 3\<rparr>"

definition example_ws_url :: string where
  "example_ws_url = ''ws://127.0.0.1:8188/ws?clientId=c1''"

definition completion_P1 :: json where
  "completion_P1 =
     JDict [(''type'', JStr ''executing''),
            (''data'', JDict [(''node'', JNull), (''prompt_id'', JStr ''P1'')])]"

definition progress_P1 :: json where
  "progress_P1 =
     JDict [(''type'', JStr ''executing''),
            (''data'', JDict [(''node'', JStr ''3''), (''prompt_id'', JStr ''P1'')])]"

definition error_P1 :: json where
  "error_P1 =
     JDict [(''type'', JStr ''execution_error''),
            (''data'', JDict [(''prompt_id'', JStr ''P1''), (''node_id'', JStr ''3''),
                              (''node_type'', JStr ''KSampler''),
                              (''exception_message'', JStr ''OOM'')])]"









section \<open>The job orchestrator\<close>

subsection \<open>Data\<close>

text \<open>
  Bytes are lists of 8-bit characters.  A \<^verbatim>\<open>Dict[str, str]\<close> of the request is an
  association list; \<^verbatim>\<open>d[k]\<close> raises \<^verbatim>\<open>KeyError\<close> on a missing key, and an f-string
  prints \<^verbatim>\<open>d.get(k)\<close> as the value or as \<^verbatim>\<open>None\<close>.
\<close>

type_synonym bytes = string

type_synonym str_dict = "(string \<times> string) list"

type_synonym py_dict = "(string \<times> json) list"

definition subscript :: "str_dict \<Rightarrow> string \<Rightarrow> exn + string" where
  "subscript d k = (case map_of d k of None \<Rightarrow> Inl (KeyError k) | Some v \<Rightarrow> Inr v)"

definition get_str :: "str_dict \<Rightarrow> string \<Rightarrow> string" where
  "get_str d k = (case map_of d k of None \<Rightarrow> ''None'' | Some v \<Rightarrow> v)"

text \<open>\<^verbatim>\<open>d[k] = v\<close> on a dict under construction: replace in place, or append.\<close>

fun dict_set :: "py_dict \<Rightarrow> string \<Rightarrow> json \<Rightarrow> py_dict" where
  "dict_set [] k v = [(k, v)]"
| "dict_set ((k', v') # d) k v = (if k' = k then (k, v) # d else (k', v') # dict_set d k v)"

text \<open>The request body of \<^verbatim>\<open>POST /run\<close> (\<^verbatim>\<open>RunRequest\<close>).\<close>

record run_request =
  workflow :: json
  callback_url :: string
  images :: "str_dict list option"
  download_urls :: "str_dict list option"
  upload_urls :: "str_dict list option"
  comfy_org_api_key :: "string option"

text \<open>A multipart upload to the engine, as the handler fills it in.\<close>

record upload_request =
  endpoint :: string
  form_field :: string
  file_name :: string
  file_content :: bytes
  content_type :: string
  subfolder_field :: "string option"

text \<open>
  The reply to \<^verbatim>\<open>POST /prompt\<close>: its status code, its text, what
  \<^verbatim>\<open>raise_for_status()\<close> raises (if anything) and what \<^verbatim>\<open>r.json()\<close> gives.  The decoded
  reply is read at the types the handler's signatures declare: \<open>reply_prompt_id\<close> is the
  \<^verbatim>\<open>prompt_id\<close> string of the reply (\<open>None\<close> when the key is absent or \<^verbatim>\<open>null\<close>), and
  \<open>reply_str\<close> is what \<^verbatim>\<open>str()\<close> prints for the whole reply.
\<close>

record queued_reply =
  reply_prompt_id :: "string option"
  reply_str :: string

record http_response =
  status_code :: int
  response_text :: string
  raise_for_status :: "exn option"
  response_json :: "exn + queued_reply"

text \<open>
  The output manifest of \<^verbatim>\<open>GET /history/{prompt_id}\<close>: handle to entry, entry to its
  \<^verbatim>\<open>outputs\<close> (\<open>None\<close> when the entry has no such key), node id to node output, media key
  to a list of artifact descriptors, each an object whose values are strings or
  \<^verbatim>\<open>null\<close>.
\<close>

type_synonym file_info = "(string \<times> string option) list"

type_synonym node_output = "(string \<times> file_info list) list"

type_synonym outputs = "(string \<times> node_output) list"

type_synonym history = "(string \<times> outputs option) list"

text \<open>
  Everything outside the process, as the answers it gives.  A call that is made once has
  one answer; a call made in a loop has one answer for each turn of the loop, indexed by
  the turn.  An answer \<open>exn option\<close> is \<open>None\<close> when the call succeeds.
\<close>

record world =
  cleanup :: "exn option"
  liveness :: "nat \<Rightarrow> bool"
  b64decode :: "string \<Rightarrow> exn + bytes"
  image_post :: "nat \<Rightarrow> upload_request \<Rightarrow> exn option"
  download_get :: "nat \<Rightarrow> string \<Rightarrow> exn + bytes"
  file_post :: "nat \<Rightarrow> upload_request \<Rightarrow> exn option"
  client_id :: string
  ws_connect :: "exn option"
  env_comfy_org_api_key :: "string option"
  queue_post :: "json \<Rightarrow> exn + http_response"
  frames :: "frame stream"
  history_get :: "string \<Rightarrow> exn + history"
  view_get :: "nat \<Rightarrow> string \<Rightarrow> string option \<Rightarrow> string option \<Rightarrow> exn + bytes"
  upload_put :: "nat \<Rightarrow> string \<Rightarrow> bytes \<Rightarrow> string \<Rightarrow> exn option"

subsection \<open>Text helpers\<close>

text \<open>\<^verbatim>\<open>s.endswith(t)\<close>, \<^verbatim>\<open>s.lower()\<close> on ASCII, and the two splits the handler uses.\<close>

definition endswith :: "string \<Rightarrow> string \<Rightarrow> bool" where
  "endswith s t = (length t \<le> length s \<and> drop (length s - length t) s = t)"

definition lower_char :: "char \<Rightarrow> char" where
  "lower_char c =
     (let n = (of_char c :: nat) in if 65 \<le> n \<and> n \<le> 90 then char_of (n + 32) else c)"

definition lower :: "string \<Rightarrow> string" where
  "lower s = map lower_char s"

text \<open>\<^verbatim>\<open>data.split(",", 1)[1]\<close>, for a text that holds a comma.\<close>

definition after_first_comma :: "string \<Rightarrow> string" where
  "after_first_comma s = tl (dropWhile (\<lambda>c. c \<noteq> CHR '','') s)"

text \<open>\<^verbatim>\<open>name.rsplit("/", 1)\<close>, for a text that holds a slash.\<close>

definition rsplit_slash :: "string \<Rightarrow> string \<times> string" where
  "rsplit_slash s =
     (rev (tl (dropWhile (\<lambda>c. c \<noteq> CHR ''/'') (rev s))),
      rev (takeWhile (\<lambda>c. c \<noteq> CHR ''/'') (rev s)))"

subsection \<open>\<^verbatim>\<open>base64.b64encode\<close>\<close>

definition b64_alphabet :: string where
  "b64_alphabet = ''ABCDEFGHIJKLMNOPQRSTUVWXYZabcdefghijklmnopqrstuvwxyz0123456789+/''"

definition b64_char :: "nat \<Rightarrow> char" where
  "b64_char n = b64_alphabet ! n"

definition b64_index :: "char \<Rightarrow> nat option" where
  "b64_index c = map_of (zip b64_alphabet [0..<64]) c"

fun b64encode :: "bytes \<Rightarrow> string" where
  "b64encode [] = []"
| "b64encode [a] =
     (let x = (of_char a :: nat)
      in [b64_char (x div 4), b64_char (x mod 4 * 16), CHR ''='', CHR ''=''])"
| "b64encode [a, b] =
     (let x = (of_char a :: nat); y = (of_char b :: nat)
      in [b64_char (x div 4), b64_char (x mod 4 * 16 + y div 16), b64_char (y mod 16 * 4),
          CHR ''=''])"
| "b64encode (a # b # c # rest) =
     (let x = (of_char a :: nat); y = (of_char b :: nat); z = (of_char c :: nat)
      in [b64_char (x div 4), b64_char (x mod 4 * 16 + y div 16),
          b64_char (y mod 16 * 4 + z div 64), b64_char (z mod 64)] @ b64encode rest)"

text \<open>
  The standard decoding (RFC 4648, with padding) of a text: groups of four characters,
  the last group padded with one or two \<open>=\<close>.  \<open>None\<close>: the text is not an encoding.
\<close>

fun b64decode_std :: "string \<Rightarrow> bytes option" where
  "b64decode_std [] = Some []"
| "b64decode_std (c1 # c2 # c3 # c4 # rest) =
     (case (b64_index c1, b64_index c2) of
        (Some i1, Some i2) \<Rightarrow>
          if c3 = CHR ''='' \<and> c4 = CHR ''='' \<and> rest = [] then
            Some [char_of (i1 * 4 + i2 div 16)]
          else
            (case b64_index c3 of
               None \<Rightarrow> None
             | Some i3 \<Rightarrow>
                 if c4 = CHR ''='' \<and> rest = [] then
                   Some [char_of (i1 * 4 + i2 div 16), char_of (i2 mod 16 * 16 + i3 div 4)]
                 else
                   (case (b64_index c4, b64decode_std rest) of
                      (Some i4, Some bs) \<Rightarrow>
                        Some (char_of (i1 * 4 + i2 div 16) #
                              char_of (i2 mod 16 * 16 + i3 div 4) #
                              char_of (i3 mod 4 * 64 + i4) # bs)
                    | _ \<Rightarrow> None))
      | _ \<Rightarrow> None)"
| "b64decode_std cs = None"

subsection \<open>\<^verbatim>\<open>_check_server\<close>\<close>

text \<open>
  \<^verbatim>\<open>for _ in range(retries)\<close>, from probe \<open>i\<close> with \<open>n\<close> turns left; \<open>probe i\<close> says whether
  the \<open>i\<close>-th \<^verbatim>\<open>GET /\<close> answers 200 (an exception counts as not).
\<close>

fun check_server_loop :: "(nat \<Rightarrow> bool) \<Rightarrow> nat \<Rightarrow> nat \<Rightarrow> bool" where
  "check_server_loop probe i 0 = False"
| "check_server_loop probe i (Suc n) =
     (if probe i then True else check_server_loop probe (Suc i) n)"

definition check_server :: "(nat \<Rightarrow> bool) \<Rightarrow> bool" where
  "check_server probe = check_server_loop probe 0 5"

subsection \<open>Input staging: \<^verbatim>\<open>_upload_images\<close> and \<^verbatim>\<open>_download_and_upload_files\<close>\<close>

text \<open>What a staging function returns: \<^verbatim>\<open>{"status": ..., "details": errors}\<close>.\<close>

record stage_result =
  status :: string
  details :: "string list"

definition stage_result_of :: "string list \<Rightarrow> stage_result" where
  "stage_result_of errors =
     \<lparr>status = (if errors \<noteq> [] then ''error'' else ''success''), details = errors\<rparr>"

text \<open>
  The \<^verbatim>\<open>try\<close> body for the \<open>i\<close>-th image: \<open>None\<close> when it runs through, the exception
  otherwise.
\<close>

definition upload_image :: "world \<Rightarrow> nat \<Rightarrow> str_dict \<Rightarrow> exn option" where
  "upload_image w i img =
     (case subscript img ''name'' of
        Inl e \<Rightarrow> Some e
      | Inr name \<Rightarrow>
          (case subscript img ''image'' of
             Inl e \<Rightarrow> Some e
           | Inr data \<Rightarrow>
               (case b64decode w
                       (if CHR '','' \<in> set data then after_first_comma data else data) of
                  Inl e \<Rightarrow> Some e
                | Inr blob \<Rightarrow>
                    image_post w i
                      \<lparr>endpoint = ''http://'' @ COMFY_HOST @ ''/upload/image'',
                       form_field = ''image'', file_name = name, file_content = blob,
                       content_type = ''image/png'', subfolder_field = None\<rparr>)))"

fun upload_images_loop :: "world \<Rightarrow> nat \<Rightarrow> string list \<Rightarrow> str_dict list \<Rightarrow> string list" where
  "upload_images_loop w i errors [] = errors"
| "upload_images_loop w i errors (img # rest) =
     (case upload_image w i img of
        None \<Rightarrow> upload_images_loop w (Suc i) errors rest
      | Some e \<Rightarrow>
          upload_images_loop w (Suc i)
            (errors @ [''Failed to upload '' @ get_str img ''name'' @ '': '' @ str_exn e])
            rest)"

definition upload_images :: "world \<Rightarrow> str_dict list \<Rightarrow> stage_result" where
  "upload_images w imgs = stage_result_of (upload_images_loop w 0 [] imgs)"

definition video_extensions :: "string list" where
  "video_extensions = [''.mp4'', ''.mov'', ''.avi'', ''.mkv'', ''.webm'']"

definition download_and_upload_file :: "world \<Rightarrow> nat \<Rightarrow> str_dict \<Rightarrow> exn option" where
  "download_and_upload_file w i item =
     (case subscript item ''name'' of
        Inl e \<Rightarrow> Some e
      | Inr name \<Rightarrow>
          (case subscript item ''url'' of
             Inl e \<Rightarrow> Some e
           | Inr url \<Rightarrow>
               (case download_get w i url of
                  Inl e \<Rightarrow> Some e
                | Inr file_bytes \<Rightarrow>
                    (let (subfolder, filename) =
                           (if CHR ''/'' \<in> set name then rsplit_slash name else ('''', name));
                         name_lower = lower filename;
                         video = (\<exists>ext \<in> set video_extensions. endswith name_lower ext)
                     in file_post w i
                          \<lparr>endpoint = ''http://'' @ COMFY_HOST @
                                        (if video then ''/upload/video'' else ''/upload/image''),
                           form_field = (if video then ''video'' else ''image''),
                           file_name = filename, file_content = file_bytes,
                           content_type = (if video then ''video/mp4'' else ''image/png''),
                           subfolder_field =
                             (if subfolder \<noteq> [] then Some subfolder else None)\<rparr>))))"

fun download_and_upload_files_loop ::
  "world \<Rightarrow> nat \<Rightarrow> string list \<Rightarrow> str_dict list \<Rightarrow> string list" where
  "download_and_upload_files_loop w i errors [] = errors"
| "download_and_upload_files_loop w i errors (item # rest) =
     (case download_and_upload_file w i item of
        None \<Rightarrow> download_and_upload_files_loop w (Suc i) errors rest
      | Some e \<Rightarrow>
          download_and_upload_files_loop w (Suc i)
            (errors @ [''Failed to process '' @ get_str item ''name'' @ '': '' @ str_exn e])
            rest)"

definition download_and_upload_files :: "world \<Rightarrow> str_dict list \<Rightarrow> stage_result" where
  "download_and_upload_files w items =
     stage_result_of (download_and_upload_files_loop w 0 [] items)"

subsection \<open>\<^verbatim>\<open>_queue_workflow\<close>\<close>

definition queue_workflow ::
  "world \<Rightarrow> json \<Rightarrow> string \<Rightarrow> string option \<Rightarrow> queued_reply outcome" where
  "queue_workflow w flow cid api_key =
     (let payload = [(''prompt'', flow), (''client_id'', JStr cid)];
          effective_key =
            (case api_key of
               Some k \<Rightarrow> if k \<noteq> [] then Some k else env_comfy_org_api_key w
             | None \<Rightarrow> env_comfy_org_api_key w);
          payload' =
            (case effective_key of
               Some k \<Rightarrow>
                 if k \<noteq> [] then
                   dict_set payload ''extra_data'' (JDict [(''api_key_comfy_org'', JStr k)])
                 else payload
             | None \<Rightarrow> payload)
      in case queue_post w (JDict payload') of
           Inl e \<Rightarrow> Raises e
         | Inr r \<Rightarrow>
             if status_code r = 400 then
               Raises (ValueError (''Workflow validation failed: '' @ response_text r))
             else
               (case raise_for_status r of
                  Some e \<Rightarrow> Raises e
                | None \<Rightarrow>
                    (case response_json r of Inl e \<Rightarrow> Raises e | Inr q \<Rightarrow> Returns q)))"

subsection \<open>Output collection: \<^verbatim>\<open>_process_outputs\<close>\<close>

text \<open>
  The dict comprehension \<^verbatim>\<open>{item["name"]: item["url"] for item in ...}\<close>: a later item
  replaces an earlier one of the same name; a missing key raises.
\<close>

fun upload_map_loop ::
  "(string \<rightharpoonup> string) \<Rightarrow> str_dict list \<Rightarrow> (string \<rightharpoonup> string) outcome" where
  "upload_map_loop m [] = Returns m"
| "upload_map_loop m (item # rest) =
     (case subscript item ''name'' of
        Inl e \<Rightarrow> Raises e
      | Inr name \<Rightarrow>
          (case subscript item ''url'' of
             Inl e \<Rightarrow> Raises e
           | Inr url \<Rightarrow> upload_map_loop (m(name \<mapsto> url)) rest))"

definition upload_map_of :: "str_dict list option \<Rightarrow> (string \<rightharpoonup> string) outcome" where
  "upload_map_of targets =
     upload_map_loop Map.empty (case targets of None \<Rightarrow> [] | Some xs \<Rightarrow> xs)"

text \<open>
  The three nested \<^verbatim>\<open>for\<close> loops visit the artifact descriptors in this order: node by
  node, within a node the keys \<^verbatim>\<open>videos\<close>, \<^verbatim>\<open>gifs\<close>, \<^verbatim>\<open>images\<close>, within a key the list.
\<close>

definition node_files :: "node_output \<Rightarrow> file_info list" where
  "node_files node_out =
     concat (map (\<lambda>key. case map_of node_out key of None \<Rightarrow> [] | Some fs \<Rightarrow> fs)
               [''videos'', ''gifs'', ''images''])"

definition manifest_files :: "outputs \<Rightarrow> file_info list" where
  "manifest_files outs = concat (map (\<lambda>(node_id, node_out). node_files node_out) outs)"

text \<open>\<^verbatim>\<open>file_info.get(k)\<close> and \<^verbatim>\<open>file_info.get(k, "")\<close>.\<close>

definition info_get :: "file_info \<Rightarrow> string \<Rightarrow> string option" where
  "info_get fi k = (case map_of fi k of None \<Rightarrow> None | Some v \<Rightarrow> v)"

definition info_get_default :: "file_info \<Rightarrow> string \<Rightarrow> string \<Rightarrow> string option" where
  "info_get_default fi k d = (case map_of fi k of None \<Rightarrow> Some d | Some v \<Rightarrow> v)"

definition uploaded_entry :: "string \<Rightarrow> json" where
  "uploaded_entry filename = JDict [(''filename'', JStr filename), (''type'', JStr ''uploaded'')]"

definition base64_entry :: "string \<Rightarrow> bytes \<Rightarrow> json" where
  "base64_entry filename file_bytes =
     JDict [(''filename'', JStr filename), (''type'', JStr ''base64''),
            (''data'', JStr (b64encode file_bytes))]"

text \<open>The content type of the \<^verbatim>\<open>PUT\<close> to an output target (line 379).\<close>

definition put_content_type :: "string \<Rightarrow> string" where
  "put_content_type filename =
     (if endswith filename ''.mp4'' \<or> endswith filename ''.mov'' \<or> endswith filename ''.avi''
      then ''video/mp4'' else ''image/png'')"

text \<open>
  The body of the innermost loop for the \<open>i\<close>-th descriptor, on the two lists built so
  far.
\<close>

definition process_file ::
  "world \<Rightarrow> (string \<rightharpoonup> string) \<Rightarrow> nat \<Rightarrow> json list \<times> string list \<Rightarrow> file_info \<Rightarrow>
     json list \<times> string list" where
  "process_file w upload_map i acc file_info =
     (let (output_data, errors) = acc;
          filename = info_get file_info ''filename'';
          subfolder = info_get_default file_info ''subfolder'' '''';
          file_type = info_get file_info ''type''
      in case filename of
           None \<Rightarrow> acc
         | Some fname \<Rightarrow>
             if fname = [] \<or> file_type = Some ''temp'' then acc
             else
               (case view_get w i fname subfolder file_type of
                  Inl e \<Rightarrow>
                    (output_data,
                     errors @ [''Failed to fetch '' @ fname @ '': '' @ str_exn e])
                | Inr file_bytes \<Rightarrow>
                    (case upload_map fname of
                       Some upload_url \<Rightarrow>
                         if upload_url \<noteq> [] then
                           (case upload_put w i upload_url file_bytes
                                   (put_content_type fname) of
                              None \<Rightarrow> (output_data @ [uploaded_entry fname], errors)
                            | Some e \<Rightarrow>
                                (output_data,
                                 errors @
                                 [''Failed to upload '' @ fname @ '': '' @ str_exn e]))
                         else (output_data @ [base64_entry fname file_bytes], errors)
                     | None \<Rightarrow> (output_data @ [base64_entry fname file_bytes], errors))))"

fun process_files ::
  "world \<Rightarrow> (string \<rightharpoonup> string) \<Rightarrow> nat \<Rightarrow> json list \<times> string list \<Rightarrow> file_info list \<Rightarrow>
     json list \<times> string list" where
  "process_files w upload_map i acc [] = acc"
| "process_files w upload_map i acc (file_info # rest) =
     process_files w upload_map (Suc i) (process_file w upload_map i acc file_info) rest"

text \<open>
  A descriptor that output collection does not skip: it has a non-empty file name
  \<open>filename\<close> and its kind is not the transient one.
\<close>

definition collectable :: "file_info \<Rightarrow> string \<Rightarrow> bool" where
  "collectable file_info filename =
     (info_get file_info ''filename'' = Some filename \<and> filename \<noteq> [] \<and>
      info_get file_info ''type'' \<noteq> Some ''temp'')"

text \<open>The bytes that the engine serves for the \<open>i\<close>-th descriptor (line 371).\<close>

definition fetched :: "world \<Rightarrow> nat \<Rightarrow> file_info \<Rightarrow> string \<Rightarrow> exn + bytes" where
  "fetched w i file_info filename =
     view_get w i filename (info_get_default file_info ''subfolder'' [])
       (info_get file_info ''type'')"

definition process_outputs ::
  "world \<Rightarrow> outputs \<Rightarrow> str_dict list option \<Rightarrow> (json list \<times> string list) outcome" where
  "process_outputs w outs targets =
     (case upload_map_of targets of
        Raises e \<Rightarrow> Raises e
      | Returns upload_map \<Rightarrow>
          Returns (process_files w upload_map 0 ([], []) (manifest_files outs)))"


text \<open>
  The entries that the \<open>i\<close>-th item adds to the error list of a staging loop: none when
  its \<^verbatim>\<open>try\<close> body runs through, one when it raises.
\<close>

definition image_failure :: "world \<Rightarrow> nat \<times> str_dict \<Rightarrow> string list" where
  "image_failure w p =
     (case upload_image w (fst p) (snd p) of
        None \<Rightarrow> []
      | Some e \<Rightarrow> [''Failed to upload '' @ get_str (snd p) ''name'' @ '': '' @ str_exn e])"

definition file_failure :: "world \<Rightarrow> nat \<times> str_dict \<Rightarrow> string list" where
  "file_failure w p =
     (case download_and_upload_file w (fst p) (snd p) of
        None \<Rightarrow> []
      | Some e \<Rightarrow> [''Failed to process '' @ get_str (snd p) ''name'' @ '': '' @ str_exn e])"

subsection \<open>\<^verbatim>\<open>_execute_job\<close>\<close>

definition failed_result :: "string \<Rightarrow> py_dict" where
  "failed_result msg = [(''status'', JStr ''failed''), (''error'', JStr msg)]"

definition failed_with_details :: "string \<Rightarrow> string list \<Rightarrow> py_dict" where
  "failed_with_details msg ds =
     [(''status'', JStr ''failed''), (''error'', JStr msg), (''details'', JList (map JStr ds))]"

text \<open>
  The two staging steps (lines 159 to 167).  \<open>Some r\<close>: the function returns \<open>r\<close> here;
  \<open>None\<close>: it goes on.  \<^verbatim>\<open>if req.images:\<close> is false for \<^verbatim>\<open>None\<close> and for the empty list.
\<close>

definition stage_inputs :: "world \<Rightarrow> run_request \<Rightarrow> py_dict option" where
  "stage_inputs w req =
     (case (case images req of
              Some (x # xs) \<Rightarrow>
                (let r = upload_images w (x # xs)
                 in if status r = ''error''
                    then Some (failed_with_details ''Image upload failed'' (details r))
                    else None)
            | _ \<Rightarrow> None) of
        Some res \<Rightarrow> Some res
      | None \<Rightarrow>
          (case download_urls req of
             Some (x # xs) \<Rightarrow>
               (let r = download_and_upload_files w (x # xs)
                in if status r = ''error''
                   then Some (failed_with_details ''File download/upload failed'' (details r))
                   else None)
           | _ \<Rightarrow> None))"

text \<open>
  Lines 188 to 202: the history lookup, output collection and the classification of the
  job.
\<close>

definition collect_outputs ::
  "world \<Rightarrow> run_request \<Rightarrow> string \<Rightarrow> string list \<Rightarrow> py_dict outcome" where
  "collect_outputs w req prompt_id exec_errors =
     (case history_get w prompt_id of
        Inl e \<Rightarrow> Raises e
      | Inr hist \<Rightarrow>
          (case map_of hist prompt_id of
             None \<Rightarrow> Returns (failed_result (''Prompt '' @ prompt_id @ '' not found in history''))
           | Some entry \<Rightarrow>
               (case process_outputs w (case entry of None \<Rightarrow> [] | Some outs \<Rightarrow> outs)
                       (upload_urls req) of
                  Raises e \<Rightarrow> Raises e
                | Returns (output_data, output_errors) \<Rightarrow>
                    (let all_errors = exec_errors @ output_errors
                     in if output_data = [] \<and> all_errors \<noteq> [] then
                          Returns (failed_with_details ''Job produced no output'' all_errors)
                        else
                          (let result = [(''status'', JStr ''completed''),
                                         (''images'', JList output_data)]
                           in Returns (if all_errors \<noteq> []
                                       then dict_set result ''warnings''
                                              (JList (map JStr all_errors))
                                       else result))))))"

text \<open>Lines 185 to 202: what follows the return of \<^verbatim>\<open>_monitor_execution\<close>.\<close>

definition after_monitor ::
  "world \<Rightarrow> run_request \<Rightarrow> string \<Rightarrow> bool \<times> string list \<Rightarrow> py_dict outcome" where
  "after_monitor w req prompt_id r =
     (let (execution_done, exec_errors) = r
      in if \<not> execution_done \<and> exec_errors = [] then
           Returns (failed_result ''Execution monitoring exited unexpectedly'')
         else collect_outputs w req prompt_id exec_errors)"

text \<open>
  Lines 169 to 202: connect the socket, queue the workflow, monitor, collect.  The
  \<^verbatim>\<open>finally\<close> clause closes the socket and changes nothing else.  \<open>None\<close>: the monitor
  never returns.
\<close>

definition job_ws_url :: "world \<Rightarrow> string" where
  "job_ws_url w = ''ws://'' @ COMFY_HOST @ ''/ws?clientId='' @ client_id w"

definition submit_and_monitor ::
  "config \<Rightarrow> world \<Rightarrow> run_request \<Rightarrow> py_dict outcome option" where
  "submit_and_monitor cfg w req =
     (let ws_url = job_ws_url w
      in case ws_connect w of
           Some e \<Rightarrow> Some (Raises e)
         | None \<Rightarrow>
             (case queue_workflow w (workflow req) (client_id w) (comfy_org_api_key req) of
                Raises e \<Rightarrow> Some (Raises e)
              | Returns queued \<Rightarrow>
                  (case reply_prompt_id queued of
                     None \<Rightarrow>
                       Some (Returns (failed_result
                         (''No prompt_id in response: '' @ reply_str queued)))
                   | Some prompt_id \<Rightarrow>
                       if prompt_id = [] then
                         Some (Returns (failed_result
                           (''No prompt_id in response: '' @ reply_str queued)))
                       else
                         (case monitor_execution cfg ws_url prompt_id (frames w) of
                            None \<Rightarrow> None
                          | Some (Raises e, rest) \<Rightarrow> Some (Raises e)
                          | Some (Returns r, rest) \<Rightarrow>
                              Some (after_monitor w req prompt_id r)))))"

text \<open>The body of the outer \<^verbatim>\<open>try\<close>.\<close>

definition execute_job_body ::
  "config \<Rightarrow> world \<Rightarrow> run_request \<Rightarrow> py_dict outcome option" where
  "execute_job_body cfg w req =
     (case cleanup w of
        Some e \<Rightarrow> Some (Raises e)
      | None \<Rightarrow>
          if \<not> check_server (liveness w) then
            Some (Returns (failed_result ''ComfyUI not reachable''))
          else
            (case stage_inputs w req of
               Some res \<Rightarrow> Some (Returns res)
             | None \<Rightarrow> submit_and_monitor cfg w req))"

text \<open>
  \<^verbatim>\<open>_execute_job\<close>: the body, with \<^verbatim>\<open>except Exception as e\<close> turning an exception into a
  failed result.  \<open>None\<close>: the call never returns.
\<close>

definition execute_job ::
  "config \<Rightarrow> world \<Rightarrow> string \<Rightarrow> run_request \<Rightarrow> py_dict option" where
  "execute_job cfg w job_id req =
     (case execute_job_body cfg w req of
        None \<Rightarrow> None
      | Some (Returns result) \<Rightarrow> Some result
      | Some (Raises e) \<Rightarrow> Some (failed_result (str_exn e)))"

text \<open>
  The job gets as far as monitoring, with the handle \<open>prompt_id\<close>: cleanup raises
  nothing, the engine is reachable, staging returns no failure, the socket connects and
  the submission returns a non-empty handle.
\<close>

definition reaches_monitoring :: "world \<Rightarrow> run_request \<Rightarrow> string \<Rightarrow> bool" where
  "reaches_monitoring w req prompt_id =
     (cleanup w = None \<and> check_server (liveness w) \<and> stage_inputs w req = None \<and>
      ws_connect w = None \<and>
      (case queue_workflow w (workflow req) (client_id w) (comfy_org_api_key req) of
         Returns queued \<Rightarrow> reply_prompt_id queued = Some prompt_id
       | Raises e \<Rightarrow> False) \<and>
      prompt_id \<noteq> [])"

text \<open>The result of a job that is completed: line 199, and lines 200 to 201.\<close>

definition completed_result :: "json list \<Rightarrow> string list \<Rightarrow> py_dict" where
  "completed_result output_data all_errors =
     (if all_errors \<noteq> []
      then [(''status'', JStr ''completed''), (''images'', JList output_data),
            (''warnings'', JList (map JStr all_errors))]
      else [(''status'', JStr ''completed''), (''images'', JList output_data)])"

subsection \<open>\<^verbatim>\<open>_fire_callback\<close> and \<^verbatim>\<open>_run_job\<close>\<close>







text \<open>Image staging returns no failure: there are no images, or none of them fails.\<close>

definition images_staged :: "world \<Rightarrow> run_request \<Rightarrow> bool" where
  "images_staged w req =
     (case images req of
        Some (x # xs) \<Rightarrow> status (upload_images w (x # xs)) \<noteq> ''error''
      | _ \<Rightarrow> True)"






text \<open>
  The three shapes of a job result: failed with an error, failed with an error and
  details, completed with the artifacts (and the errors as warnings, when there are any).
\<close>

definition job_result_shape :: "py_dict \<Rightarrow> bool" where
  "job_result_shape res =
     ((\<exists>msg. res = failed_result msg) \<or>
      (\<exists>msg ds. res = failed_with_details msg ds) \<or>
      (\<exists>output_data all_errors. res = completed_result output_data all_errors \<and>
          \<not> (output_data = [] \<and> all_errors \<noteq> [])))"

subsection \<open>Example inputs\<close>

text \<open>
  A world in which every call succeeds: the engine answers the submission with the handle
  \<open>P1\<close>, its history holds \<open>P1\<close> with an empty manifest, and the event stream is silent
  (every \<^verbatim>\<open>recv\<close> times out).  The examples below change one answer at a time.
\<close>

definition quiet_world :: world where
  "quiet_world =
     \<lparr>cleanup = None,
      liveness = (\<lambda>i. True),
      b64decode = (\<lambda>s. case b64decode_std s of
                          None \<Rightarrow> Inl (OtherError ''Incorrect padding'')
                        | Some bs \<Rightarrow> Inr bs),
      image_post = (\<lambda>i r. None),
      download_get = (\<lambda>i url. Inr ''abc''),
      file_post = (\<lambda>i r. None),
      client_id = ''c1'',
      ws_connect = None,
      env_comfy_org_api_key = None,
      queue_post = (\<lambda>payload.
        Inr \<lparr>status_code = 200, response_text = ''ok'',
             raise_for_status = None,
             response_json = Inr \<lparr>reply_prompt_id = Some ''P1'',
                                   reply_str = ''{'' @ [squote] @ ''prompt_id'' @ [squote] @
                                               '': '' @ [squote] @ ''P1'' @ [squote] @ ''}''\<rparr>\<rparr>),
      frames = sconst RecvTimeout,
      history_get = (\<lambda>p. Inr [(''P1'', Some [])]),
      view_get = (\<lambda>i filename subfolder file_type. Inr ''Man''),
      upload_put = (\<lambda>i url file_bytes ctype. None)\<rparr>"

definition plain_request :: run_request where
  "plain_request =
     \<lparr>workflow = JDict [(''1'', JDict [])], callback_url = ''http://caller/cb'',
      images = None, download_urls = None, upload_urls = None, comfy_org_api_key = None\<rparr>"




text \<open>
  A manifest with a transient image, an image with no output target and a video with
  one; and the output targets of a request naming the video.
\<close>

definition tmp_png :: file_info where
  "tmp_png = [(''filename'', Some ''tmp.png''), (''subfolder'', Some []), (''type'', Some ''temp'')]"

definition out_png :: file_info where
  "out_png = [(''filename'', Some ''out.png''), (''subfolder'', Some []), (''type'', Some ''output'')]"

definition vid_mp4 :: file_info where
  "vid_mp4 = [(''filename'', Some ''vid.mp4''), (''subfolder'', Some []), (''type'', Some ''output'')]"

definition three_files_outputs :: outputs where
  "three_files_outputs = [(''9'', [(''images'', [tmp_png, out_png]), (''videos'', [vid_mp4])])]"

definition vid_target :: "str_dict list option" where
  "vid_target = Some [[(''name'', ''vid.mp4''), (''url'', ''http://bucket/vid.mp4'')]]"

definition vid_map :: "string \<rightharpoonup> string" where
  "vid_map = [''vid.mp4'' \<mapsto> ''http://bucket/vid.mp4'']"

text \<open>
  Three images: one that uploads, one without the \<^verbatim>\<open>name\<close> key, and one whose upload the
  engine refuses; and two files to fetch, the second without a URL.
\<close>

definition three_images :: "str_dict list" where
  "three_images =
     [[(''name'', ''a.png''), (''image'', ''data:image/png;base64,TWFu'')],
      [(''nam'', ''b.png''), (''image'', ''TWFu'')],
      [(''name'', ''c.png''), (''image'', ''TWFu'')]]"

definition refuses_third :: "nat \<Rightarrow> upload_request \<Rightarrow> exn option" where
  "refuses_third i r = (if i = 2 then Some (OtherError ''500 Server Error'') else None)"

definition two_files :: "str_dict list" where
  "two_files =
     [[(''name'', ''clips/in.MP4''), (''url'', ''http://caller/in.mp4'')],
      [(''name'', ''mask.png'')]]"

text \<open>A history whose manifest for \<open>P1\<close> holds a transient image and an image.\<close>

definition one_image_history :: history where
  "one_image_history = [(''P1'', Some [(''9'', [(''images'', [tmp_png, out_png])])])]"

definition serves_one_image :: "string \<Rightarrow> exn + history" where
  "serves_one_image prompt_id = Inr one_image_history"

text \<open>The two event streams of the scenarios: one event, then silence.\<close>

definition completes_P1 :: "frame stream" where
  "completes_P1 = RecvStr (Some completion_P1) ## sconst RecvTimeout"

definition fails_P1 :: "frame stream" where
  "fails_P1 = RecvStr (Some error_P1) ## sconst RecvTimeout"


section \<open>Properties of the event stream monitor\<close>

lemma py_get_dict [simp]:
  "py_get (JDict kvs) k = Inr (case map_of kvs k of None \<Rightarrow> JNull | Some v \<Rightarrow> v)"
  by (simp add: py_get_def)

lemma handle_message_True:
  "handle_message p errs msg = Stop (Returns (True, e')) \<longleftrightarrow>
     completion_event p msg \<and> e' = errs"
  by (cases msg)
    (auto simp: handle_message_def py_get_def
          split: option.splits json.splits sum.splits if_splits)

lemma handle_message_False:
  "handle_message p errs msg = Stop (Returns (False, e')) \<longleftrightarrow>
     error_event p msg \<and>
     e' = errs @ [error_entry (data_field msg ''node_id'') (data_field msg ''node_type'')
                    (data_field msg ''exception_message'')]"
  by (cases msg)
    (auto simp: handle_message_def py_get_def
          split: option.splits json.splits sum.splits if_splits)

lemma handle_message_progress:
  "progress_event msg \<Longrightarrow> handle_message p errs msg = Continue"
  by (cases msg)
    (auto simp: handle_message_def py_get_def
          split: option.splits json.splits sum.splits if_splits)


lemma monitor_iteration_Returns:
  "monitor_iteration cfg u p errs f = Stop (Returns x) \<longleftrightarrow>
     (\<exists>msg. f = RecvStr (Some msg) \<and> handle_message p errs msg = Stop (Returns x))"
  by (auto simp: monitor_iteration_def split: frame.splits option.splits outcome.splits)


lemma monitor_loop_SCons:
  "monitor_loop cfg u p errs (f ## ws) =
     (case monitor_iteration cfg u p errs f of
        Continue \<Rightarrow> monitor_loop cfg u p errs ws
      | Stop r \<Rightarrow> Some (r, ws))"
  by (subst monitor_loop.simps) (simp split: step.splits)

lemma monitor_loop_skip:
  "\<forall>g\<in>set pre. monitor_iteration cfg u p errs g = Continue \<Longrightarrow>
   monitor_loop cfg u p errs (pre @- ws) = monitor_loop cfg u p errs ws"
  by (induction pre) (simp_all add: monitor_loop_SCons)

lemma monitor_loop_stops:
  assumes "\<forall>g\<in>set pre. monitor_iteration cfg u p errs g = Continue"
    and "monitor_iteration cfg u p errs f = Stop r"
  shows "monitor_loop cfg u p errs (pre @- (f ## rest)) = Some (r, rest)"
  using assms by (simp add: monitor_loop_skip monitor_loop_SCons)

lemma monitor_loop_ends:
  assumes "monitor_loop cfg u p errs ws = Some y"
  shows "\<exists>pre f. ws = pre @- (f ## snd y) \<and>
           (\<forall>g\<in>set pre. monitor_iteration cfg u p errs g = Continue) \<and>
           monitor_iteration cfg u p errs f = Stop (fst y)"
proof (rule monitor_loop.raw_induct
    [where P = "\<lambda>cfg u p errs ws y. \<exists>pre f. ws = pre @- (f ## snd y) \<and>
           (\<forall>g\<in>set pre. monitor_iteration cfg u p errs g = Continue) \<and>
           monitor_iteration cfg u p errs f = Stop (fst y)", OF _ assms], goal_cases)
  case (1 loop cfg u p errs ws y)
  show ?case
  proof (cases "monitor_iteration cfg u p errs (shd ws)")
    case Continue
    with 1(2) have "loop cfg u p errs (stl ws) = Some y" by simp
    from 1(1)[OF this] obtain pre f where
      h: "stl ws = pre @- (f ## snd y)"
         "\<forall>g\<in>set pre. monitor_iteration cfg u p errs g = Continue"
         "monitor_iteration cfg u p errs f = Stop (fst y)" by blast
    have "ws = shd ws ## stl ws" by simp
    then have "ws = (shd ws # pre) @- (f ## snd y)"
      using h(1) by simp
    moreover have "\<forall>g\<in>set (shd ws # pre). monitor_iteration cfg u p errs g = Continue"
      using h(2) Continue by simp
    ultimately show ?thesis using h(3) by blast
  next
    case (Stop r)
    with 1(2) have y: "y = (r, stl ws)" by simp
    have "ws = [] @- (shd ws ## snd y)" by (simp add: y)
    moreover have "monitor_iteration cfg u p errs (shd ws) = Stop (fst y)"
      using Stop y by simp
    moreover have "\<forall>g\<in>set []. monitor_iteration cfg u p errs g = Continue" by simp
    ultimately show ?thesis by blast
  qed
qed

lemma monitor_loop_iff:
  "monitor_loop cfg u p errs ws = Some (r, rest) \<longleftrightarrow>
     (\<exists>pre f. ws = pre @- (f ## rest) \<and>
        (\<forall>g\<in>set pre. monitor_iteration cfg u p errs g = Continue) \<and>
        monitor_iteration cfg u p errs f = Stop r)"
proof
  assume "monitor_loop cfg u p errs ws = Some (r, rest)"
  from monitor_loop_ends[OF this] show
    "\<exists>pre f. ws = pre @- (f ## rest) \<and>
        (\<forall>g\<in>set pre. monitor_iteration cfg u p errs g = Continue) \<and>
        monitor_iteration cfg u p errs f = Stop r" by simp
next
  assume "\<exists>pre f. ws = pre @- (f ## rest) \<and>
        (\<forall>g\<in>set pre. monitor_iteration cfg u p errs g = Continue) \<and>
        monitor_iteration cfg u p errs f = Stop r"
  then show "monitor_loop cfg u p errs ws = Some (r, rest)"
    using monitor_loop_stops by blast
qed

text \<open>
  C1.  The monitor returns \<open>execution_done = True\<close> exactly when it reads a completion
  event: the frames before it all sent the loop round again, and the frame itself is a
  decoded event of type \<^verbatim>\<open>executing\<close> with no node and the job's handle.  A progress
  event (type \<^verbatim>\<open>executing\<close> with a node) sends the loop round again, whatever the handle.
\<close>

theorem completion_iff_completion_event:
  "(monitor_execution cfg ws_url prompt_id ws = Some (Returns (True, errs), rest) \<longleftrightarrow>
      errs = [] \<and>
      (\<exists>pre msg. ws = pre @- (RecvStr (Some msg) ## rest) \<and>
         (\<forall>g\<in>set pre. monitor_iteration cfg ws_url prompt_id [] g = Continue) \<and>
         completion_event prompt_id msg)) \<and>
   (progress_event ev \<longrightarrow>
      monitor_iteration cfg ws_url prompt_id errors (RecvStr (Some ev)) = Continue)"
proof
  show "monitor_execution cfg ws_url prompt_id ws = Some (Returns (True, errs), rest) \<longleftrightarrow>
      errs = [] \<and>
      (\<exists>pre msg. ws = pre @- (RecvStr (Some msg) ## rest) \<and>
         (\<forall>g\<in>set pre. monitor_iteration cfg ws_url prompt_id [] g = Continue) \<and>
         completion_event prompt_id msg)"
    unfolding monitor_execution_def monitor_loop_iff monitor_iteration_Returns
      handle_message_True
    by auto
  show "progress_event ev \<longrightarrow>
      monitor_iteration cfg ws_url prompt_id errors (RecvStr (Some ev)) = Continue"
    by (simp add: monitor_iteration_def handle_message_progress)
qed

theorem completion_iff_completion_event_witness:
  "monitor_execution example_config example_ws_url ''P1''
     ([RecvTimeout, RecvStr (Some progress_P1)] @-
        (RecvStr (Some completion_P1) ## sconst RecvTimeout)) =
     Some (Returns (True, []), sconst RecvTimeout) \<and>
   progress_event progress_P1 \<and>
   monitor_iteration example_config example_ws_url ''P1'' [] (RecvStr (Some progress_P1)) =
     Continue"
proof -
  have p: "progress_event progress_P1" by (simp add: progress_P1_def)
  have c: "completion_event ''P1'' completion_P1" by (simp add: completion_P1_def)
  have s: "\<forall>g\<in>set [RecvTimeout, RecvStr (Some progress_P1)].
             monitor_iteration example_config example_ws_url ''P1'' [] g = Continue"
    using p by (simp add: monitor_iteration_def handle_message_progress)
  show ?thesis
    using completion_iff_completion_event
      [of example_config example_ws_url "''P1''"
          "[RecvTimeout, RecvStr (Some progress_P1)] @-
             (RecvStr (Some completion_P1) ## sconst RecvTimeout)"
          "[]" "sconst RecvTimeout" progress_P1 "[]"] p c s
    by blast
qed

text \<open>
  C2.  When the monitor reads an error event for the job's handle, it returns at once
  with \<open>execution_done = False\<close> and exactly one error entry,
  \<^verbatim>\<open>Node {node_id} ({node_type}): {exception_message}\<close>; the frames after the event are
  left unread, whatever they are.
\<close>

theorem error_event_ends_monitoring:
  assumes "error_event prompt_id msg"
    and "\<forall>g\<in>set pre. monitor_iteration cfg ws_url prompt_id [] g = Continue"
  shows "monitor_execution cfg ws_url prompt_id (pre @- (RecvStr (Some msg) ## rest)) =
           Some (Returns (False,
                   [error_entry (data_field msg ''node_id'') (data_field msg ''node_type'')
                      (data_field msg ''exception_message'')]), rest)"
proof -
  have "handle_message prompt_id [] msg =
          Stop (Returns (False,
                  [] @ [error_entry (data_field msg ''node_id'') (data_field msg ''node_type'')
                      (data_field msg ''exception_message'')]))"
    using assms(1) handle_message_False by blast
  then have "monitor_iteration cfg ws_url prompt_id [] (RecvStr (Some msg)) =
          Stop (Returns (False,
                  [error_entry (data_field msg ''node_id'') (data_field msg ''node_type'')
                      (data_field msg ''exception_message'')]))"
    by (simp add: monitor_iteration_def)
  with assms(2) show ?thesis
    unfolding monitor_execution_def by (rule monitor_loop_stops)
qed

theorem error_event_ends_monitoring_witness:
  "error_event ''P1'' error_P1 \<and>
   monitor_execution example_config example_ws_url ''P1''
     ([RecvTimeout, RecvStr (Some progress_P1)] @-
        (RecvStr (Some error_P1) ## RecvStr (Some completion_P1) ## sconst RecvTimeout)) =
     Some (Returns (False, [''Node 3 (KSampler): OOM'']),
           RecvStr (Some completion_P1) ## sconst RecvTimeout)"
proof -
  have e: "error_event ''P1'' error_P1" by (simp add: error_P1_def)
  have p: "progress_event progress_P1" by (simp add: progress_P1_def)
  have s: "\<forall>g\<in>set [RecvTimeout, RecvStr (Some progress_P1)].
             monitor_iteration example_config example_ws_url ''P1'' [] g = Continue"
    using p by (simp add: monitor_iteration_def handle_message_progress)
  have "error_entry (data_field error_P1 ''node_id'') (data_field error_P1 ''node_type'')
          (data_field error_P1 ''exception_message'') = ''Node 3 (KSampler): OOM''"
    by (simp add: error_P1_def error_entry_def)
  with error_event_ends_monitoring [OF e s, of "RecvStr (Some completion_P1) ## sconst RecvTimeout"] e
  show ?thesis by simp
qed


subsection \<open>Reconnection\<close>





lemma reconnect_loop_negative_delay:
  "d < 0 \<Longrightarrow> net i = ConnectFails \<Longrightarrow>
   reconnect_loop u d net i (Suc n) =
     (Some (Raises (ValueError ''sleep length must be non-negative'')), [Probe, Connect u])"
  by simp


subsection \<open>How monitoring ends\<close>




lemma monitor_error_P1:
  "monitor_execution cfg u ''P1'' (RecvStr (Some error_P1) ## rest) =
     Some (Returns (False, [''Node 3 (KSampler): OOM'']), rest)"
proof -
  have "handle_message ''P1'' [] error_P1 = Stop (Returns (False, [''Node 3 (KSampler): OOM'']))"
    unfolding handle_message_False by (simp add: error_P1_def error_entry_def)
  then show ?thesis
    by (simp add: monitor_execution_def monitor_loop_SCons monitor_iteration_def)
qed

lemma monitor_completion_P1:
  "monitor_execution cfg u ''P1'' (RecvStr (Some completion_P1) ## rest) =
     Some (Returns (True, []), rest)"
proof -
  have "handle_message ''P1'' [] completion_P1 = Stop (Returns (True, []))"
    unfolding handle_message_True by (simp add: completion_P1_def)
  then show ?thesis
    by (simp add: monitor_execution_def monitor_loop_SCons monitor_iteration_def)
qed




lemma monitor_returns_done_or_errors:
  assumes "monitor_execution cfg ws_url prompt_id ws = Some (Returns (d, es), rest)"
  shows "d \<or> es \<noteq> []"
proof -
  from assms have "monitor_loop cfg ws_url prompt_id [] ws = Some (Returns (d, es), rest)"
    by (simp add: monitor_execution_def)
  from monitor_loop_ends[OF this] obtain pre f where
    "ws = pre @- (f ## snd (Returns (d, es), rest))"
    "\<forall>g\<in>set pre. monitor_iteration cfg ws_url prompt_id [] g = Continue"
    "monitor_iteration cfg ws_url prompt_id [] f = Stop (fst (Returns (d, es), rest))"
    by blast
  then have "monitor_iteration cfg ws_url prompt_id [] f = Stop (Returns (d, es))"
    by simp
  then obtain msg where m: "handle_message prompt_id [] msg = Stop (Returns (d, es))"
    unfolding monitor_iteration_Returns by blast
  show ?thesis
  proof (cases d)
    case True
    then show ?thesis by simp
  next
    case False
    with m have "es = [] @ [error_entry (data_field msg ''node_id'')
          (data_field msg ''node_type'') (data_field msg ''exception_message'')]"
      by (simp add: handle_message_False)
    then show ?thesis by simp
  qed
qed

lemma after_monitor_collects:
  assumes "monitor_execution cfg ws_url prompt_id ws = Some (Returns r, rest)"
  shows "after_monitor w req prompt_id r = collect_outputs w req prompt_id (snd r)"
proof -
  obtain d es where r: "r = (d, es)" by (cases r)
  from assms r have "monitor_execution cfg ws_url prompt_id ws = Some (Returns (d, es), rest)"
    by simp
  then have "d \<or> es \<noteq> []" by (rule monitor_returns_done_or_errors)
  then show ?thesis unfolding r after_monitor_def by auto
qed

text \<open>
  C10.  \<^verbatim>\<open>_monitor_execution\<close> never returns \<open>(False, [])\<close>: a normal return is
  \<open>(True, errors)\<close> or \<open>(False, errors)\<close> with an entry in \<open>errors\<close>.  So on every value it
  returns, \<^verbatim>\<open>_execute_job\<close> goes past the test of line 185 to the history lookup: the
  branch returning "Execution monitoring exited unexpectedly" is not taken.
\<close>

theorem monitor_never_false_and_empty:
  "(monitor_execution cfg ws_url prompt_id ws =
      Some (Returns (execution_done, exec_errors), rest) \<longrightarrow>
      execution_done \<or> exec_errors \<noteq> []) \<and>
   (monitor_execution cfg ws_url prompt_id ws = Some (Returns r, rest) \<longrightarrow>
      after_monitor w req prompt_id r = collect_outputs w req prompt_id (snd r))"
proof (intro conjI impI)
  assume "monitor_execution cfg ws_url prompt_id ws =
    Some (Returns (execution_done, exec_errors), rest)"
  then show "execution_done \<or> exec_errors \<noteq> []" by (rule monitor_returns_done_or_errors)
next
  assume "monitor_execution cfg ws_url prompt_id ws = Some (Returns r, rest)"
  then show "after_monitor w req prompt_id r = collect_outputs w req prompt_id (snd r)"
    by (rule after_monitor_collects)
qed

theorem monitor_never_false_and_empty_witness:
  "monitor_execution example_config example_ws_url ''P1''
     (RecvStr (Some error_P1) ## sconst RecvTimeout) =
     Some (Returns (False, [''Node 3 (KSampler): OOM'']), sconst RecvTimeout) \<and>
   (False \<or> [''Node 3 (KSampler): OOM''] \<noteq> []) \<and>
   after_monitor quiet_world plain_request ''P1'' (False, [''Node 3 (KSampler): OOM'']) =
     collect_outputs quiet_world plain_request ''P1'' [''Node 3 (KSampler): OOM'']"
  using monitor_never_false_and_empty
    [of example_config example_ws_url "''P1''" "RecvStr (Some error_P1) ## sconst RecvTimeout"
        False "[''Node 3 (KSampler): OOM'']" "sconst RecvTimeout"
        "(False, [''Node 3 (KSampler): OOM''])" quiet_world plain_request]
    monitor_error_P1[of example_config example_ws_url "sconst RecvTimeout"]
  by simp


subsection \<open>The base64 encoding\<close>

lemma length_b64_alphabet: "length b64_alphabet = 64"
  by (simp add: b64_alphabet_def)

lemma distinct_b64_alphabet: "distinct b64_alphabet"
  by (simp add: b64_alphabet_def)

lemma pad_notin_b64_alphabet: "CHR ''='' \<notin> set b64_alphabet"
  by (simp add: b64_alphabet_def)

lemma b64_index_char: "n < 64 \<Longrightarrow> b64_index (b64_char n) = Some n"
proof -
  assume n: "n < 64"
  have "map_of (zip b64_alphabet [0..<64]) (b64_alphabet ! n) = Some ([0..<64] ! n)"
    by (rule map_of_zip_nth) (simp_all add: length_b64_alphabet distinct_b64_alphabet n)
  then show ?thesis using n by (simp add: b64_index_def b64_char_def)
qed

lemma b64_char_not_pad: "n < 64 \<Longrightarrow> b64_char n \<noteq> CHR ''=''"
proof
  assume n: "n < 64" and e: "b64_char n = CHR ''=''"
  from n have "b64_alphabet ! n \<in> set b64_alphabet"
    by (intro nth_mem) (simp add: length_b64_alphabet)
  with e pad_notin_b64_alphabet show False by (simp add: b64_char_def)
qed

lemma of_char_less_256: "(of_char c :: nat) < 256"
proof -
  have "(of_char c :: nat) mod 256 = of_char c" by simp
  then show ?thesis by (metis mod_less_divisor zero_less_numeral)
qed

text \<open>Decoding one group of four characters, by the sextets it was made of.\<close>

lemma decode_full_group:
  assumes "i1 < 64" "i2 < 64" "i3 < 64" "i4 < 64"
  shows "b64decode_std (b64_char i1 # b64_char i2 # b64_char i3 # b64_char i4 # rest) =
           (case b64decode_std rest of
              None \<Rightarrow> None
            | Some bs \<Rightarrow>
                Some (char_of (i1 * 4 + i2 div 16) # char_of (i2 mod 16 * 16 + i3 div 4) #
                      char_of (i3 mod 4 * 64 + i4) # bs))"
  using assms
  by (simp add: b64_index_char b64_char_not_pad split: option.splits)

lemma decode_two_pads:
  assumes "i1 < 64" "i2 < 64"
  shows "b64decode_std [b64_char i1, b64_char i2, CHR ''='', CHR ''=''] =
           Some [char_of (i1 * 4 + i2 div 16)]"
  using assms by (simp add: b64_index_char)

lemma decode_one_pad:
  assumes "i1 < 64" "i2 < 64" "i3 < 64"
  shows "b64decode_std [b64_char i1, b64_char i2, b64_char i3, CHR ''=''] =
           Some [char_of (i1 * 4 + i2 div 16), char_of (i2 mod 16 * 16 + i3 div 4)]"
  using assms by (simp add: b64_index_char b64_char_not_pad)

lemma octet_1:
  fixes x y :: nat
  assumes "y < 256"
  shows "x div 4 * 4 + (x mod 4 * 16 + y div 16) div 16 = x"
proof -
  have "y div 16 div 16 = 0" using assms by (simp add: div_mult2_eq[symmetric])
  then show ?thesis by simp
qed

lemma octet_1_last:
  fixes x :: nat
  shows "x div 4 * 4 + (x mod 4 * 16) div 16 = x"
  by simp

lemma octet_2:
  fixes x y z :: nat
  assumes "y < 256" "z < 256"
  shows "(x mod 4 * 16 + y div 16) mod 16 * 16 + (y mod 16 * 4 + z div 64) div 4 = y"
proof -
  have a: "y div 16 < 16" using assms(1) by simp
  have "(x mod 4 * 16 + y div 16) mod 16 = y div 16 mod 16" by simp
  also have "\<dots> = y div 16" using a by simp
  finally have b: "(x mod 4 * 16 + y div 16) mod 16 = y div 16" .
  have "z div 64 div 4 = 0" using assms(2) by (simp add: div_mult2_eq[symmetric])
  then have c: "(y mod 16 * 4 + z div 64) div 4 = y mod 16" by simp
  show ?thesis unfolding b c by simp
qed

lemma octet_2_last:
  fixes x y :: nat
  assumes "y < 256"
  shows "(x mod 4 * 16 + y div 16) mod 16 * 16 + (y mod 16 * 4) div 4 = y"
proof -
  have a: "y div 16 < 16" using assms(1) by simp
  have "(x mod 4 * 16 + y div 16) mod 16 = y div 16 mod 16" by simp
  also have "\<dots> = y div 16" using a by simp
  finally have b: "(x mod 4 * 16 + y div 16) mod 16 = y div 16" .
  show ?thesis unfolding b by simp
qed

lemma octet_3:
  fixes y z :: nat
  assumes "z < 256"
  shows "(y mod 16 * 4 + z div 64) mod 4 * 64 + z mod 64 = z"
proof -
  have a: "z div 64 < 4" using assms by simp
  have "(y mod 16 * 4 + z div 64) mod 4 = z div 64 mod 4" by simp
  also have "\<dots> = z div 64" using a by simp
  finally have b: "(y mod 16 * 4 + z div 64) mod 4 = z div 64" .
  show ?thesis unfolding b by simp
qed

lemma sextet_bounds:
  fixes x y z :: nat
  assumes "x < 256" "y < 256" "z < 256"
  shows "x div 4 < 64" "x mod 4 * 16 < 64" "x mod 4 * 16 + y div 16 < 64"
    "y mod 16 * 4 < 64" "y mod 16 * 4 + z div 64 < 64" "z mod 64 < 64"
proof -
  have a: "x mod 4 < 4" "y mod 16 < 16" by simp_all
  have b: "y div 16 < 16" "z div 64 < 4" using assms by simp_all
  show "x div 4 < 64" using assms by simp
  show "x mod 4 * 16 < 64" using a by linarith
  show "x mod 4 * 16 + y div 16 < 64" using a b by linarith
  show "y mod 16 * 4 < 64" using a by linarith
  show "y mod 16 * 4 + z div 64 < 64" using a b by linarith
  show "z mod 64 < 64" by simp
qed

lemma b64decode_b64encode: "b64decode_std (b64encode bs) = Some bs"
proof (induction bs rule: b64encode.induct)
  case 1
  show ?case by simp
next
  case (2 a)
  define x :: nat where "x = of_char a"
  have x: "x < 256" unfolding x_def by (rule of_char_less_256)
  note s = sextet_bounds[OF x x x]
  have e: "b64encode [a] = [b64_char (x div 4), b64_char (x mod 4 * 16), CHR ''='', CHR ''='']"
    by (simp add: x_def Let_def)
  have "b64decode_std (b64encode [a]) =
          b64decode_std [b64_char (x div 4), b64_char (x mod 4 * 16), CHR ''='', CHR ''='']"
    by (simp only: e)
  also have "\<dots> = Some [char_of (x div 4 * 4 + (x mod 4 * 16) div 16)]"
    by (rule decode_two_pads) (rule s)+
  also have "\<dots> = Some [char_of x]" by (simp only: octet_1_last)
  finally show ?case by (simp only: x_def char_of_char)
next
  case (3 a b)
  define x :: nat where "x = of_char a"
  define y :: nat where "y = of_char b"
  have x: "x < 256" and y: "y < 256" unfolding x_def y_def by (rule of_char_less_256)+
  note s = sextet_bounds[OF x y y]
  have e: "b64encode [a, b] =
          [b64_char (x div 4), b64_char (x mod 4 * 16 + y div 16), b64_char (y mod 16 * 4),
           CHR ''='']"
    by (simp add: x_def y_def Let_def)
  have "b64decode_std (b64encode [a, b]) =
          b64decode_std
            [b64_char (x div 4), b64_char (x mod 4 * 16 + y div 16), b64_char (y mod 16 * 4),
             CHR ''='']"
    by (simp only: e)
  also have "\<dots> =
          Some [char_of (x div 4 * 4 + (x mod 4 * 16 + y div 16) div 16),
                char_of ((x mod 4 * 16 + y div 16) mod 16 * 16 + (y mod 16 * 4) div 4)]"
    by (rule decode_one_pad) (rule s)+
  also have "\<dots> = Some [char_of x, char_of y]"
    by (simp only: octet_1[OF y] octet_2_last[OF y])
  finally show ?case by (simp only: x_def y_def char_of_char)
next
  case (4 a b c rest)
  define x :: nat where "x = of_char a"
  define y :: nat where "y = of_char b"
  define z :: nat where "z = of_char c"
  have x: "x < 256" and y: "y < 256" and z: "z < 256"
    unfolding x_def y_def z_def by (rule of_char_less_256)+
  note s = sextet_bounds[OF x y z]
  have e: "b64encode (a # b # c # rest) =
          b64_char (x div 4) # b64_char (x mod 4 * 16 + y div 16) #
          b64_char (y mod 16 * 4 + z div 64) # b64_char (z mod 64) # b64encode rest"
    by (simp add: x_def y_def z_def Let_def)
  have "b64decode_std (b64encode (a # b # c # rest)) =
          b64decode_std
            (b64_char (x div 4) # b64_char (x mod 4 * 16 + y div 16) #
             b64_char (y mod 16 * 4 + z div 64) # b64_char (z mod 64) # b64encode rest)"
    by (simp only: e)
  also have "\<dots> =
          Some (char_of (x div 4 * 4 + (x mod 4 * 16 + y div 16) div 16) #
                char_of ((x mod 4 * 16 + y div 16) mod 16 * 16 +
                         (y mod 16 * 4 + z div 64) div 4) #
                char_of ((y mod 16 * 4 + z div 64) mod 4 * 64 + z mod 64) # rest)"
    by (subst decode_full_group) (simp_all only: s "4.IH" option.case)
  also have "\<dots> = Some (char_of x # char_of y # char_of z # rest)"
    by (simp only: octet_1[OF y] octet_2[OF y z] octet_3[OF z])
  finally show ?case by (simp only: x_def y_def z_def char_of_char)
qed


subsection \<open>Output collection\<close>

lemma process_file_temp:
  "info_get fi ''type'' = Some ''temp'' \<Longrightarrow> process_file w m i acc fi = acc"
  by (cases acc) (simp add: process_file_def Let_def split: option.splits)


lemma process_file_inlined:
  assumes "collectable fi fname"
    and "fetched w i fi fname = Inr file_bytes"
    and "m fname = None"
  shows "process_file w m i (output_data, errors) fi =
           (output_data @ [base64_entry fname file_bytes], errors)"
  using assms by (simp add: process_file_def Let_def collectable_def fetched_def)







lemma example_files:
  "collectable vid_mp4 ''vid.mp4''" "collectable out_png ''out.png''"
  "info_get tmp_png ''type'' = Some ''temp''"
  "fetched quiet_world i vid_mp4 ''vid.mp4'' = Inr ''Man''"
  "fetched quiet_world i out_png ''out.png'' = Inr ''Man''"
  "vid_map ''vid.mp4'' = Some ''http://bucket/vid.mp4''" "vid_map ''out.png'' = None"
  "upload_put quiet_world i url bs ctype = None"
  "manifest_files three_files_outputs = [vid_mp4, tmp_png, out_png]"
  "upload_map_of vid_target = Returns vid_map"
  by (simp_all add: collectable_def info_get_def vid_mp4_def out_png_def tmp_png_def
        fetched_def quiet_world_def vid_map_def manifest_files_def node_files_def
        three_files_outputs_def upload_map_of_def vid_target_def subscript_def)



subsection \<open>Input staging\<close>

lemma upload_images_loop_eq:
  "upload_images_loop w i errors imgs =
     errors @ concat (map (image_failure w) (enumerate i imgs))"
  by (induction imgs arbitrary: i errors)
     (simp_all add: image_failure_def split: option.splits)

lemma download_and_upload_files_loop_eq:
  "download_and_upload_files_loop w i errors items =
     errors @ concat (map (file_failure w) (enumerate i items))"
  by (induction items arbitrary: i errors)
     (simp_all add: file_failure_def split: option.splits)

lemma concat_failures_length:
  assumes "\<forall>x\<in>set xs. length (f x) \<le> 1"
  shows "length (concat (map f xs)) = length (filter (\<lambda>x. f x \<noteq> []) xs)"
  using assms
proof (induction xs)
  case Nil
  show ?case by simp
next
  case (Cons x xs)
  have "length (f x) \<le> 1" using Cons.prems by simp
  then have "length (f x) = (if f x \<noteq> [] then 1 else 0)"
    by (cases "f x") auto
  then show ?case using Cons by simp
qed

lemma concat_failures_empty:
  "concat (map f (enumerate 0 xs)) \<noteq> [] \<longleftrightarrow> (\<exists>i<length xs. f (i, xs ! i) \<noteq> [])"
proof
  assume "concat (map f (enumerate 0 xs)) \<noteq> []"
  then obtain p where p: "p \<in> set (enumerate 0 xs)" "f p \<noteq> []" by auto
  then have "fst p < length xs" "xs ! fst p = snd p"
    by (simp_all add: in_set_enumerate_eq)
  then have "f (fst p, xs ! fst p) \<noteq> []" using p(2) by simp
  then show "\<exists>i<length xs. f (i, xs ! i) \<noteq> []" using \<open>fst p < length xs\<close> by blast
next
  assume "\<exists>i<length xs. f (i, xs ! i) \<noteq> []"
  then obtain i where i: "i < length xs" "f (i, xs ! i) \<noteq> []" by blast
  then have "(i, xs ! i) \<in> set (enumerate 0 xs)" by (simp add: in_set_enumerate_eq)
  then show "concat (map f (enumerate 0 xs)) \<noteq> []" using i(2) by auto
qed

lemma image_failure_iff:
  "image_failure w p \<noteq> [] \<longleftrightarrow> upload_image w (fst p) (snd p) \<noteq> None"
  by (simp add: image_failure_def split: option.splits)

lemma file_failure_iff:
  "file_failure w p \<noteq> [] \<longleftrightarrow> download_and_upload_file w (fst p) (snd p) \<noteq> None"
  by (simp add: file_failure_def split: option.splits)

lemma stage_result_of_fields:
  "details (stage_result_of es) = es" "status (stage_result_of es) = ''error'' \<longleftrightarrow> es \<noteq> []"
  by (simp_all add: stage_result_of_def)

lemma upload_images_details:
  "details (upload_images w imgs) = concat (map (image_failure w) (enumerate 0 imgs))"
  by (simp add: upload_images_def stage_result_of_fields upload_images_loop_eq)

lemma upload_images_status:
  "status (upload_images w imgs) = ''error'' \<longleftrightarrow>
     (\<exists>i<length imgs. upload_image w i (imgs ! i) \<noteq> None)"
proof -
  have "status (upload_images w imgs) = ''error'' \<longleftrightarrow>
          concat (map (image_failure w) (enumerate 0 imgs)) \<noteq> []"
    by (simp only: upload_images_def stage_result_of_fields upload_images_loop_eq append_Nil)
  also have "\<dots> \<longleftrightarrow> (\<exists>i<length imgs. image_failure w (i, imgs ! i) \<noteq> [])"
    by (rule concat_failures_empty)
  also have "\<dots> \<longleftrightarrow> (\<exists>i<length imgs. upload_image w i (imgs ! i) \<noteq> None)"
    by (simp only: image_failure_iff fst_conv snd_conv)
  finally show ?thesis .
qed

lemma upload_images_count:
  "length (details (upload_images w imgs)) =
     length (filter (\<lambda>p. upload_image w (fst p) (snd p) \<noteq> None) (enumerate 0 imgs))"
proof -
  have "\<forall>p\<in>set (enumerate 0 imgs). length (image_failure w p) \<le> 1"
    by (simp add: image_failure_def split: option.splits)
  from concat_failures_length[OF this] show ?thesis
    by (simp only: upload_images_details image_failure_iff)
qed

lemma download_details:
  "details (download_and_upload_files w items) =
     concat (map (file_failure w) (enumerate 0 items))"
  by (simp add: download_and_upload_files_def stage_result_of_fields
        download_and_upload_files_loop_eq)

lemma download_status:
  "status (download_and_upload_files w items) = ''error'' \<longleftrightarrow>
     (\<exists>i<length items. download_and_upload_file w i (items ! i) \<noteq> None)"
proof -
  have "status (download_and_upload_files w items) = ''error'' \<longleftrightarrow>
          concat (map (file_failure w) (enumerate 0 items)) \<noteq> []"
    by (simp only: download_and_upload_files_def stage_result_of_fields
          download_and_upload_files_loop_eq append_Nil)
  also have "\<dots> \<longleftrightarrow> (\<exists>i<length items. file_failure w (i, items ! i) \<noteq> [])"
    by (rule concat_failures_empty)
  also have "\<dots> \<longleftrightarrow> (\<exists>i<length items. download_and_upload_file w i (items ! i) \<noteq> None)"
    by (simp only: file_failure_iff fst_conv snd_conv)
  finally show ?thesis .
qed

lemma download_count:
  "length (details (download_and_upload_files w items)) =
     length (filter (\<lambda>p. download_and_upload_file w (fst p) (snd p) \<noteq> None)
               (enumerate 0 items))"
proof -
  have "\<forall>p\<in>set (enumerate 0 items). length (file_failure w p) \<le> 1"
    by (simp add: file_failure_def split: option.splits)
  from concat_failures_length[OF this] show ?thesis
    by (simp only: download_details file_failure_iff)
qed


lemma execute_job_image_failure:
  assumes "cleanup w = None" "check_server (liveness w)" "images req = Some imgs"
    and "status (upload_images w imgs) = ''error''"
  shows "execute_job cfg w job_id req =
           Some (failed_with_details ''Image upload failed'' (details (upload_images w imgs)))"
proof -
  have "imgs \<noteq> []"
    using assms(4) by (auto simp: upload_images_def stage_result_of_def)
  then obtain x xs where "imgs = x # xs" by (cases imgs) auto
  then have "stage_inputs w req =
      Some (failed_with_details ''Image upload failed'' (details (upload_images w imgs)))"
    using assms(3,4) by (simp add: stage_inputs_def)
  then show ?thesis
    using assms(1,2) by (simp add: execute_job_def execute_job_body_def)
qed

lemma execute_job_file_failure:
  assumes "cleanup w = None" "check_server (liveness w)" "images_staged w req"
    and "download_urls req = Some items"
    and "status (download_and_upload_files w items) = ''error''"
  shows "execute_job cfg w job_id req =
           Some (failed_with_details ''File download/upload failed''
                   (details (download_and_upload_files w items)))"
proof -
  have "items \<noteq> []"
    using assms(5) by (auto simp: download_and_upload_files_def stage_result_of_def)
  then obtain x xs where "items = x # xs" by (cases items) auto
  then have "stage_inputs w req =
      Some (failed_with_details ''File download/upload failed''
              (details (download_and_upload_files w items)))"
    using assms(3,4,5)
    by (auto simp: stage_inputs_def images_staged_def split: option.splits list.splits)
  then show ?thesis
    using assms(1,2) by (simp add: execute_job_def execute_job_body_def)
qed

text \<open>
  C7.  Each staging function goes through all its items: its \<open>details\<close> are the entries
  of the items that fail, item by item and in order, whatever happened to the items
  before; so it has one entry for each failed item and none for the others, and its
  status is \<^verbatim>\<open>error\<close> exactly when some item fails.  When a staging function reports an
  error, the job is failed with those details in its result.
\<close>

theorem staging_reports_every_failure:
  "details (upload_images w imgs) = concat (map (image_failure w) (enumerate 0 imgs)) \<and>
   (status (upload_images w imgs) = ''error'' \<longleftrightarrow>
      (\<exists>i<length imgs. upload_image w i (imgs ! i) \<noteq> None)) \<and>
   length (details (upload_images w imgs)) =
     length (filter (\<lambda>p. upload_image w (fst p) (snd p) \<noteq> None) (enumerate 0 imgs)) \<and>
   details (download_and_upload_files w items) =
     concat (map (file_failure w) (enumerate 0 items)) \<and>
   (status (download_and_upload_files w items) = ''error'' \<longleftrightarrow>
      (\<exists>i<length items. download_and_upload_file w i (items ! i) \<noteq> None)) \<and>
   length (details (download_and_upload_files w items)) =
     length (filter (\<lambda>p. download_and_upload_file w (fst p) (snd p) \<noteq> None)
               (enumerate 0 items)) \<and>
   (cleanup w = None \<and> check_server (liveness w) \<and> images req = Some imgs \<and>
    status (upload_images w imgs) = ''error'' \<longrightarrow>
      execute_job cfg w job_id req =
        Some [(''status'', JStr ''failed''), (''error'', JStr ''Image upload failed''),
              (''details'', JList (map JStr (details (upload_images w imgs))))]) \<and>
   (cleanup w = None \<and> check_server (liveness w) \<and> images_staged w req \<and>
    download_urls req = Some items \<and>
    status (download_and_upload_files w items) = ''error'' \<longrightarrow>
      execute_job cfg w job_id req =
        Some [(''status'', JStr ''failed''), (''error'', JStr ''File download/upload failed''),
              (''details'', JList (map JStr (details (download_and_upload_files w items))))])"
proof (intro conjI impI)
  show "details (upload_images w imgs) = concat (map (image_failure w) (enumerate 0 imgs))"
    by (rule upload_images_details)
  show "status (upload_images w imgs) = ''error'' \<longleftrightarrow>
      (\<exists>i<length imgs. upload_image w i (imgs ! i) \<noteq> None)"
    by (rule upload_images_status)
  show "length (details (upload_images w imgs)) =
     length (filter (\<lambda>p. upload_image w (fst p) (snd p) \<noteq> None) (enumerate 0 imgs))"
    by (rule upload_images_count)
  show "details (download_and_upload_files w items) =
     concat (map (file_failure w) (enumerate 0 items))"
    by (rule download_details)
  show "status (download_and_upload_files w items) = ''error'' \<longleftrightarrow>
      (\<exists>i<length items. download_and_upload_file w i (items ! i) \<noteq> None)"
    by (rule download_status)
  show "length (details (download_and_upload_files w items)) =
     length (filter (\<lambda>p. download_and_upload_file w (fst p) (snd p) \<noteq> None)
               (enumerate 0 items))"
    by (rule download_count)
next
  assume a: "cleanup w = None \<and> check_server (liveness w) \<and> images req = Some imgs \<and>
    status (upload_images w imgs) = ''error''"
  have "execute_job cfg w job_id req =
        Some (failed_with_details ''Image upload failed'' (details (upload_images w imgs)))"
    by (rule execute_job_image_failure) (simp_all only: a)
  then show "execute_job cfg w job_id req =
        Some [(''status'', JStr ''failed''), (''error'', JStr ''Image upload failed''),
              (''details'', JList (map JStr (details (upload_images w imgs))))]"
    by (simp only: failed_with_details_def)
next
  assume a: "cleanup w = None \<and> check_server (liveness w) \<and> images_staged w req \<and>
    download_urls req = Some items \<and>
    status (download_and_upload_files w items) = ''error''"
  have "execute_job cfg w job_id req =
        Some (failed_with_details ''File download/upload failed''
                (details (download_and_upload_files w items)))"
    by (rule execute_job_file_failure) (simp_all only: a)
  then show "execute_job cfg w job_id req =
        Some [(''status'', JStr ''failed''), (''error'', JStr ''File download/upload failed''),
              (''details'', JList (map JStr (details (download_and_upload_files w items))))]"
    by (simp only: failed_with_details_def)
qed


lemma b64decode_TWFu: "b64decode_std ''TWFu'' = Some ''Man''"
proof -
  have "b64encode ''Man'' = ''TWFu''"
    by (simp add: b64_char_def b64_alphabet_def)
  then show ?thesis using b64decode_b64encode[of "''Man''"] by simp
qed

lemma quiet_world_b64decode: "b64decode quiet_world ''TWFu'' = Inr ''Man''"
proof -
  have "b64decode quiet_world =
          (\<lambda>s. case b64decode_std s of
                  None \<Rightarrow> Inl (OtherError ''Incorrect padding'')
                | Some bs \<Rightarrow> Inr bs)"
    by (simp add: quiet_world_def)
  then show ?thesis by (simp only: b64decode_TWFu option.case)
qed

lemma quiet_world_fields:
  "cleanup quiet_world = None" "check_server (liveness quiet_world)"
  "file_post quiet_world i r = None" "image_post quiet_world i r = None"
  "download_get quiet_world i url = Inr ''abc''"
  "ws_connect quiet_world = None"
  by (simp_all add: quiet_world_def check_server_def eval_nat_numeral)

lemma three_images_failures:
  "concat (map (image_failure (quiet_world\<lparr>image_post := refuses_third\<rparr>))
     (enumerate 0 three_images)) =
     [''Failed to upload None: '' @ repr_str ''name'',
      ''Failed to upload c.png: 500 Server Error'']"
  by (simp add: three_images_def image_failure_def upload_image_def subscript_def
        after_first_comma_def quiet_world_b64decode refuses_third_def get_str_def)

lemma two_files_failures:
  "concat (map (file_failure quiet_world) (enumerate 0 two_files)) =
     [''Failed to process mask.png: '' @ repr_str ''url'']"
  by (simp add: two_files_def file_failure_def download_and_upload_file_def subscript_def
        quiet_world_fields get_str_def Let_def split: prod.splits)

theorem staging_reports_every_failure_witness:
  "details (upload_images (quiet_world\<lparr>image_post := refuses_third\<rparr>) three_images) =
     [''Failed to upload None: '' @ repr_str ''name'',
      ''Failed to upload c.png: 500 Server Error''] \<and>
   status (upload_images (quiet_world\<lparr>image_post := refuses_third\<rparr>) three_images) = ''error'' \<and>
   execute_job example_config (quiet_world\<lparr>image_post := refuses_third\<rparr>) ''j1''
     (plain_request\<lparr>images := Some three_images\<rparr>) =
     Some [(''status'', JStr ''failed''), (''error'', JStr ''Image upload failed''),
           (''details'', JList [JStr (''Failed to upload None: '' @ repr_str ''name''),
                                JStr ''Failed to upload c.png: 500 Server Error''])] \<and>
   details (download_and_upload_files quiet_world two_files) =
     [''Failed to process mask.png: '' @ repr_str ''url''] \<and>
   execute_job example_config quiet_world ''j1''
     (plain_request\<lparr>download_urls := Some two_files\<rparr>) =
     Some [(''status'', JStr ''failed''), (''error'', JStr ''File download/upload failed''),
           (''details'', JList [JStr (''Failed to process mask.png: '' @ repr_str ''url'')])]"
proof -
  let ?w = "quiet_world\<lparr>image_post := refuses_third\<rparr>"
  let ?r1 = "plain_request\<lparr>images := Some three_images\<rparr>"
  let ?r2 = "plain_request\<lparr>download_urls := Some two_files\<rparr>"
  note t1 = staging_reports_every_failure
    [of ?w three_images two_files ?r1 example_config "''j1''"]
  note t2 = staging_reports_every_failure
    [of quiet_world three_images two_files ?r2 example_config "''j1''"]
  have d1: "details (upload_images ?w three_images) =
     [''Failed to upload None: '' @ repr_str ''name'',
      ''Failed to upload c.png: 500 Server Error'']"
    using t1 three_images_failures by simp
  have s1: "status (upload_images ?w three_images) = ''error''"
    using d1 by (simp add: upload_images_def stage_result_of_def split: if_splits)
  have w1: "cleanup ?w = None" "check_server (liveness ?w)"
    using quiet_world_fields(1,2) by (simp_all add: quiet_world_def)
  have e1: "execute_job example_config ?w ''j1'' ?r1 =
     Some [(''status'', JStr ''failed''), (''error'', JStr ''Image upload failed''),
           (''details'', JList [JStr (''Failed to upload None: '' @ repr_str ''name''),
                                JStr ''Failed to upload c.png: 500 Server Error''])]"
    using t1 w1 s1 d1 by simp
  have d2: "details (download_and_upload_files quiet_world two_files) =
     [''Failed to process mask.png: '' @ repr_str ''url'']"
    using t2 two_files_failures by simp
  have s2: "status (download_and_upload_files quiet_world two_files) = ''error''"
    using d2 by (simp add: download_and_upload_files_def stage_result_of_def split: if_splits)
  have i2: "images_staged quiet_world ?r2"
    by (simp add: images_staged_def plain_request_def)
  have e2: "execute_job example_config quiet_world ''j1'' ?r2 =
     Some [(''status'', JStr ''failed''), (''error'', JStr ''File download/upload failed''),
           (''details'', JList [JStr (''Failed to process mask.png: '' @ repr_str ''url'')])]"
    using t2 quiet_world_fields(1,2) i2 s2 d2 by simp
  from d1 s1 e1 d2 e2 show ?thesis by simp
qed


subsection \<open>The result of a job\<close>

lemma execute_job_after_monitor:
  assumes "reaches_monitoring w req prompt_id"
    and "monitor_execution cfg (job_ws_url w) prompt_id (frames w) = Some (Returns r, rest)"
  shows "execute_job cfg w job_id req =
           Some (case after_monitor w req prompt_id r of
                   Returns res \<Rightarrow> res
                 | Raises e \<Rightarrow> failed_result (str_exn e))"
  using assms
  by (auto simp: reaches_monitoring_def execute_job_def execute_job_body_def
        submit_and_monitor_def split: outcome.splits)



lemma dict_set_warnings:
  "dict_set [(''status'', JStr ''completed''), (''images'', JList output_data)] ''warnings'' v =
     [(''status'', JStr ''completed''), (''images'', JList output_data), (''warnings'', v)]"
  by simp

lemma collect_outputs_cases:
  assumes "history_get w prompt_id = Inr hist" "map_of hist prompt_id = Some entry"
    and "process_outputs w (case entry of None \<Rightarrow> [] | Some outs \<Rightarrow> outs) (upload_urls req) =
           Returns (output_data, output_errors)"
  shows "collect_outputs w req prompt_id exec_errors =
           (if output_data = [] \<and> exec_errors @ output_errors \<noteq> []
            then Returns (failed_with_details ''Job produced no output''
                            (exec_errors @ output_errors))
            else Returns (completed_result output_data (exec_errors @ output_errors)))"
  by (simp only: collect_outputs_def Let_def assms sum.case option.case outcome.case
        prod.case completed_result_def dict_set_warnings if_distrib[of Returns])

lemma collect_outputs_no_output:
  assumes "history_get w prompt_id = Inr hist" "map_of hist prompt_id = Some entry"
    and "process_outputs w (case entry of None \<Rightarrow> [] | Some outs \<Rightarrow> outs) (upload_urls req) =
           Returns ([], output_errors)"
    and "exec_errors @ output_errors \<noteq> []"
  shows "collect_outputs w req prompt_id exec_errors =
           Returns (failed_with_details ''Job produced no output''
                      (exec_errors @ output_errors))"
proof -
  have c: "[] = ([] :: json list) \<and> exec_errors @ output_errors \<noteq> []"
    using assms(4) by simp
  show ?thesis
    using collect_outputs_cases[OF assms(1,2,3), of exec_errors, unfolded if_P[OF c]] .
qed

lemma collect_outputs_completed:
  assumes "history_get w prompt_id = Inr hist" "map_of hist prompt_id = Some entry"
    and "process_outputs w (case entry of None \<Rightarrow> [] | Some outs \<Rightarrow> outs) (upload_urls req) =
           Returns (output_data, output_errors)"
    and "\<not> (output_data = [] \<and> exec_errors @ output_errors \<noteq> [])"
  shows "collect_outputs w req prompt_id exec_errors =
           Returns (completed_result output_data (exec_errors @ output_errors))"
  using collect_outputs_cases[OF assms(1,2,3), of exec_errors, unfolded if_not_P[OF assms(4)]] .

lemma collect_outputs_shape:
  assumes "collect_outputs w req prompt_id exec_errors = Returns res"
  shows "job_result_shape res"
proof (cases "history_get w prompt_id")
  case (Inl e)
  then show ?thesis using assms by (simp add: collect_outputs_def)
next
  case (Inr hist)
  show ?thesis
  proof (cases "map_of hist prompt_id")
    case None
    then have "res = failed_result (''Prompt '' @ prompt_id @ '' not found in history'')"
      using assms Inr by (simp add: collect_outputs_def)
    then show ?thesis unfolding job_result_shape_def by blast
  next
    case (Some entry)
    show ?thesis
    proof (cases "process_outputs w (case entry of None \<Rightarrow> [] | Some outs \<Rightarrow> outs)
                    (upload_urls req)")
      case (Raises e)
      then show ?thesis using assms Inr Some by (simp add: collect_outputs_def)
    next
      case (Returns p)
      obtain d es where p: "p = (d, es)" by (cases p)
      show ?thesis
      proof (cases "d = [] \<and> exec_errors @ es \<noteq> []")
        case True
        then have d: "d = []" and e: "exec_errors @ es \<noteq> []" by blast+
        have "collect_outputs w req prompt_id exec_errors =
                Returns (failed_with_details ''Job produced no output'' (exec_errors @ es))"
          by (rule collect_outputs_no_output[OF Inr Some Returns[unfolded p d] e])
        with assms have "res = failed_with_details ''Job produced no output''
                                   (exec_errors @ es)"
          by simp
        then show ?thesis unfolding job_result_shape_def by blast
      next
        case False
        have "collect_outputs w req prompt_id exec_errors =
                Returns (completed_result d (exec_errors @ es))"
          by (rule collect_outputs_completed[OF Inr Some Returns[unfolded p] False])
        with assms have "res = completed_result d (exec_errors @ es)" by simp
        with False show ?thesis unfolding job_result_shape_def by blast
      qed
    qed
  qed
qed


lemma stage_inputs_shape:
  assumes "stage_inputs w req = Some res"
  shows "job_result_shape res"
proof -
  have "\<exists>msg ds. res = failed_with_details msg ds"
    using assms unfolding stage_inputs_def Let_def
    by (auto split: option.splits list.splits if_splits)
  then show ?thesis unfolding job_result_shape_def by blast
qed

lemma after_monitor_shape:
  assumes "after_monitor w req prompt_id r = Returns res"
  shows "job_result_shape res"
proof -
  obtain d es where r: "r = (d, es)" by (cases r)
  show ?thesis
  proof (cases "\<not> d \<and> es = []")
    case True
    then have "res = failed_result ''Execution monitoring exited unexpectedly''"
      using assms r by (simp add: after_monitor_def)
    then show ?thesis unfolding job_result_shape_def by blast
  next
    case False
    then have "collect_outputs w req prompt_id es = Returns res"
      using assms r by (auto simp: after_monitor_def)
    then show ?thesis by (rule collect_outputs_shape)
  qed
qed

lemma submit_and_monitor_shape:
  assumes "submit_and_monitor cfg w req = Some (Returns res)"
  shows "job_result_shape res"
proof (cases "ws_connect w")
  case (Some e)
  then show ?thesis using assms by (simp add: submit_and_monitor_def)
next
  case None
  note conn = this
  show ?thesis
  proof (cases "queue_workflow w (workflow req) (client_id w) (comfy_org_api_key req)")
    case (Raises e)
    then show ?thesis using assms conn by (simp add: submit_and_monitor_def)
  next
    case (Returns queued)
    note q = this
    show ?thesis
    proof (cases "reply_prompt_id queued = None \<or> reply_prompt_id queued = Some []")
      case True
      then have "res = failed_result (''No prompt_id in response: '' @ reply_str queued)"
        using assms conn q by (auto simp: submit_and_monitor_def)
      then show ?thesis unfolding job_result_shape_def by blast
    next
      case False
      then obtain pid where pid: "reply_prompt_id queued = Some pid" "pid \<noteq> []" by auto
      show ?thesis
      proof (cases "monitor_execution cfg (job_ws_url w) pid (frames w)")
        case None
        then show ?thesis using assms conn q pid by (simp add: submit_and_monitor_def)
      next
        case (Some y)
        obtain out rest where y: "y = (out, rest)" by (cases y)
        show ?thesis
        proof (cases out)
          case (Raises e)
          then show ?thesis
            using assms conn q pid Some y by (simp add: submit_and_monitor_def)
        next
          case (Returns r)
          then have "after_monitor w req pid r = Returns res"
            using assms conn q pid Some y by (simp add: submit_and_monitor_def)
          then show ?thesis by (rule after_monitor_shape)
        qed
      qed
    qed
  qed
qed

lemma execute_job_shape:
  assumes "execute_job cfg w job_id req = Some res"
  shows "job_result_shape res"
proof (cases "execute_job_body cfg w req")
  case None
  then show ?thesis using assms by (simp add: execute_job_def)
next
  case (Some out)
  show ?thesis
  proof (cases out)
    case (Raises e)
    then have "res = failed_result (str_exn e)"
      using assms Some by (simp add: execute_job_def)
    then show ?thesis unfolding job_result_shape_def by blast
  next
    case (Returns res')
    then have res: "res' = res" using assms Some by (simp add: execute_job_def)
    have body: "execute_job_body cfg w req = Some (Returns res)"
      using Some Returns res by simp
    show ?thesis
    proof (cases "cleanup w")
      case (Some e)
      then show ?thesis using body by (simp add: execute_job_body_def)
    next
      case None
      note cl = this
      show ?thesis
      proof (cases "check_server (liveness w)")
        case False
        then have "res = failed_result ''ComfyUI not reachable''"
          using body cl by (simp add: execute_job_body_def)
        then show ?thesis unfolding job_result_shape_def by blast
      next
        case True
        show ?thesis
        proof (cases "stage_inputs w req")
          case (Some r)
          then have "r = res" using body cl True by (simp add: execute_job_body_def)
          with Some show ?thesis using stage_inputs_shape by blast
        next
          case None
          then have "submit_and_monitor cfg w req = Some (Returns res)"
            using body cl True by (simp add: execute_job_body_def)
          then show ?thesis by (rule submit_and_monitor_shape)
        qed
      qed
    qed
  qed
qed

lemma shape_failed_has_error:
  assumes "job_result_shape res" "map_of res ''status'' = Some (JStr ''failed'')"
  shows "\<exists>msg. map_of res ''error'' = Some (JStr msg)"
proof -
  consider (a) msg where "res = failed_result msg"
    | (b) msg ds where "res = failed_with_details msg ds"
    | (c) d es where "res = completed_result d es"
    using assms(1) unfolding job_result_shape_def by blast
  then show ?thesis
  proof cases
    case a
    then show ?thesis by (simp add: failed_result_def)
  next
    case b
    then show ?thesis by (simp add: failed_with_details_def)
  next
    case c
    then show ?thesis using assms(2) by (simp add: completed_result_def split: if_splits)
  qed
qed

lemma shape_completed_not_empty_with_errors:
  assumes "job_result_shape res" "map_of res ''status'' = Some (JStr ''completed'')"
  shows "\<not> (map_of res ''images'' = Some (JList []) \<and> map_of res ''warnings'' \<noteq> None)"
proof -
  consider (a) msg where "res = failed_result msg"
    | (b) msg ds where "res = failed_with_details msg ds"
    | (c) d es where "res = completed_result d es" "\<not> (d = [] \<and> es \<noteq> [])"
    using assms(1) unfolding job_result_shape_def by blast
  then show ?thesis
  proof cases
    case a
    then show ?thesis using assms(2) by (simp add: failed_result_def)
  next
    case b
    then show ?thesis using assms(2) by (simp add: failed_with_details_def)
  next
    case c
    then show ?thesis by (auto simp: completed_result_def split: if_splits)
  qed
qed


lemma execute_job_collects:
  assumes "reaches_monitoring w req prompt_id"
    and "monitor_execution cfg (job_ws_url w) prompt_id (frames w) =
           Some (Returns (d, exec_errors), rest)"
    and "collect_outputs w req prompt_id exec_errors = Returns res"
  shows "execute_job cfg w job_id req = Some res"
proof -
  have "after_monitor w req prompt_id (d, exec_errors) =
          collect_outputs w req prompt_id (snd (d, exec_errors))"
    using assms(2) by (rule after_monitor_collects)
  then have "after_monitor w req prompt_id (d, exec_errors) = Returns res"
    using assms(3) by simp
  then show ?thesis
    using execute_job_after_monitor[OF assms(1,2), of job_id] by simp
qed

text \<open>
  C4.  A job result with status \<^verbatim>\<open>failed\<close> has an \<^verbatim>\<open>error\<close>.  When the job gets as far
  as output collection, collection yields no artifact and at least one error was recorded
  (by the monitor or by collection), the result is \<^verbatim>\<open>failed\<close> with the error
  "Job produced no output" and all the errors as details.  A result with status
  \<^verbatim>\<open>completed\<close> never has both an empty artifact list and warnings.
\<close>

theorem failed_has_error_and_no_output_fails:
  "(execute_job cfg w job_id req = Some result \<and>
    map_of result ''status'' = Some (JStr ''failed'') \<longrightarrow>
      (\<exists>msg. map_of result ''error'' = Some (JStr msg))) \<and>
   (reaches_monitoring w req prompt_id \<and>
    monitor_execution cfg (job_ws_url w) prompt_id (frames w) =
      Some (Returns (execution_done, exec_errors), rest) \<and>
    history_get w prompt_id = Inr hist \<and> map_of hist prompt_id = Some entry \<and>
    process_outputs w (case entry of None \<Rightarrow> [] | Some outs \<Rightarrow> outs) (upload_urls req) =
      Returns ([], output_errors) \<and>
    exec_errors @ output_errors \<noteq> [] \<longrightarrow>
      execute_job cfg w job_id req =
        Some [(''status'', JStr ''failed''), (''error'', JStr ''Job produced no output''),
              (''details'', JList (map JStr (exec_errors @ output_errors)))]) \<and>
   (execute_job cfg w job_id req = Some result \<and>
    map_of result ''status'' = Some (JStr ''completed'') \<longrightarrow>
      \<not> (map_of result ''images'' = Some (JList []) \<and> map_of result ''warnings'' \<noteq> None))"
proof (intro conjI impI)
  assume a: "execute_job cfg w job_id req = Some result \<and>
    map_of result ''status'' = Some (JStr ''failed'')"
  then have "job_result_shape result" using execute_job_shape by blast
  then show "\<exists>msg. map_of result ''error'' = Some (JStr msg)"
    using a by (intro shape_failed_has_error) simp_all
next
  assume a: "reaches_monitoring w req prompt_id \<and>
    monitor_execution cfg (job_ws_url w) prompt_id (frames w) =
      Some (Returns (execution_done, exec_errors), rest) \<and>
    history_get w prompt_id = Inr hist \<and> map_of hist prompt_id = Some entry \<and>
    process_outputs w (case entry of None \<Rightarrow> [] | Some outs \<Rightarrow> outs) (upload_urls req) =
      Returns ([], output_errors) \<and>
    exec_errors @ output_errors \<noteq> []"
  then have h: "reaches_monitoring w req prompt_id"
    "monitor_execution cfg (job_ws_url w) prompt_id (frames w) =
      Some (Returns (execution_done, exec_errors), rest)"
    "history_get w prompt_id = Inr hist" "map_of hist prompt_id = Some entry"
    "process_outputs w (case entry of None \<Rightarrow> [] | Some outs \<Rightarrow> outs) (upload_urls req) =
      Returns ([], output_errors)"
    "exec_errors @ output_errors \<noteq> []"
    by blast+
  have "execute_job cfg w job_id req =
        Some (failed_with_details ''Job produced no output'' (exec_errors @ output_errors))"
    by (rule execute_job_collects[OF h(1,2) collect_outputs_no_output[OF h(3,4,5,6)]])
  then show "execute_job cfg w job_id req =
        Some [(''status'', JStr ''failed''), (''error'', JStr ''Job produced no output''),
              (''details'', JList (map JStr (exec_errors @ output_errors)))]"
    by (simp only: failed_with_details_def)
next
  assume a: "execute_job cfg w job_id req = Some result \<and>
    map_of result ''status'' = Some (JStr ''completed'')"
  then have "job_result_shape result" using execute_job_shape by blast
  then show "\<not> (map_of result ''images'' = Some (JList []) \<and>
                map_of result ''warnings'' \<noteq> None)"
    using a by (intro shape_completed_not_empty_with_errors) simp_all
qed

lemma b64encode_Man: "b64encode ''Man'' = ''TWFu''"
  by (simp add: b64_char_def b64_alphabet_def)

lemma quiet_reaches:
  "reaches_monitoring (quiet_world\<lparr>frames := fs\<rparr>) plain_request ''P1''"
  "reaches_monitoring (quiet_world\<lparr>frames := fs, history_get := h\<rparr>) plain_request ''P1''"
  "reaches_monitoring quiet_world plain_request ''P1''"
  by (simp_all add: reaches_monitoring_def quiet_world_def plain_request_def check_server_def
        eval_nat_numeral stage_inputs_def queue_workflow_def)

lemma quiet_ws_url:
  "job_ws_url (quiet_world\<lparr>frames := fs\<rparr>) = example_ws_url"
  "job_ws_url (quiet_world\<lparr>frames := fs, history_get := h\<rparr>) = example_ws_url"
  "job_ws_url quiet_world = example_ws_url"
  by (simp_all add: job_ws_url_def quiet_world_def example_ws_url_def COMFY_HOST_def)

lemma quiet_history:
  "history_get (quiet_world\<lparr>frames := fs\<rparr>) ''P1'' = Inr [(''P1'', Some [])]"
  "map_of [(''P1'', Some ([] :: outputs))] ''P1'' = Some (Some [])"
  "process_outputs (quiet_world\<lparr>frames := fs\<rparr>)
     (case Some [] of None \<Rightarrow> [] | Some outs \<Rightarrow> outs) (upload_urls plain_request) =
     Returns ([], [])"
  by (simp_all add: quiet_world_def process_outputs_def upload_map_of_def manifest_files_def
        plain_request_def)

theorem failed_has_error_and_no_output_fails_witness:
  "execute_job example_config (quiet_world\<lparr>frames := fails_P1\<rparr>) ''j1'' plain_request =
     Some [(''status'', JStr ''failed''), (''error'', JStr ''Job produced no output''),
           (''details'', JList [JStr ''Node 3 (KSampler): OOM''])] \<and>
   (\<exists>msg. map_of [(''status'', JStr ''failed''), (''error'', JStr ''Job produced no output''),
                  (''details'', JList [JStr ''Node 3 (KSampler): OOM''])] ''error'' =
           Some (JStr msg)) \<and>
   execute_job example_config (quiet_world\<lparr>frames := completes_P1\<rparr>) ''j1'' plain_request =
     Some [(''status'', JStr ''completed''), (''images'', JList [])] \<and>
   \<not> (map_of [(''status'', JStr ''completed''), (''images'', JList [])] ''images'' =
        Some (JList []) \<and>
      map_of [(''status'', JStr ''completed''), (''images'', JList [])] ''warnings'' \<noteq> None)"
proof -
  let ?wf = "quiet_world\<lparr>frames := fails_P1\<rparr>"
  let ?wc = "quiet_world\<lparr>frames := completes_P1\<rparr>"
  let ?failed = "[(''status'', JStr ''failed''), (''error'', JStr ''Job produced no output''),
           (''details'', JList [JStr ''Node 3 (KSampler): OOM''])]"
  let ?completed = "[(''status'', JStr ''completed''), (''images'', JList [])]"
  have mf: "monitor_execution example_config (job_ws_url ?wf) ''P1'' (frames ?wf) =
          Some (Returns (False, [''Node 3 (KSampler): OOM'']), sconst RecvTimeout)"
    using monitor_error_P1[of example_config example_ws_url "sconst RecvTimeout"]
    by (simp add: quiet_ws_url fails_P1_def)
  have mc: "monitor_execution example_config (job_ws_url ?wc) ''P1'' (frames ?wc) =
          Some (Returns (True, []), sconst RecvTimeout)"
    using monitor_completion_P1[of example_config example_ws_url "sconst RecvTimeout"]
    by (simp add: quiet_ws_url completes_P1_def)
  have f: "execute_job example_config ?wf ''j1'' plain_request = Some ?failed"
    using failed_has_error_and_no_output_fails
      [of example_config ?wf "''j1''" plain_request ?failed "''P1''" False
          "[''Node 3 (KSampler): OOM'']" "sconst RecvTimeout" "[(''P1'', Some [])]"
          "Some []" "[]"]
      quiet_reaches(1)[of fails_P1] mf quiet_history(1)[of fails_P1] quiet_history(2)
      quiet_history(3)[of fails_P1]
    by simp
  have fe: "\<exists>msg. map_of ?failed ''error'' = Some (JStr msg)"
    using failed_has_error_and_no_output_fails
      [of example_config ?wf "''j1''" plain_request ?failed "''P1''" False
          "[''Node 3 (KSampler): OOM'']" "sconst RecvTimeout" "[(''P1'', Some [])]"
          "Some []" "[]"] f
    by simp
  have "collect_outputs ?wc plain_request ''P1'' [] =
          Returns (completed_result [] ([] @ []))"
    by (rule collect_outputs_completed
          [OF quiet_history(1)[of completes_P1] quiet_history(2) quiet_history(3)[of completes_P1]])
       simp
  then have c: "execute_job example_config ?wc ''j1'' plain_request = Some ?completed"
    using execute_job_collects[OF quiet_reaches(1)[of completes_P1] mc, of ?completed "''j1''"]
    by (simp add: completed_result_def)
  have ce: "\<not> (map_of ?completed ''images'' = Some (JList []) \<and>
               map_of ?completed ''warnings'' \<noteq> None)"
    using failed_has_error_and_no_output_fails
      [of example_config ?wc "''j1''" plain_request ?completed "''P1''" True
          "[]" "sconst RecvTimeout" "[(''P1'', Some [])]" "Some []" "[]"] c
    by simp
  from f fe c ce show ?thesis by blast
qed

text \<open>
  C9.  When the monitor ends on an error event (it returns \<open>False\<close> with its error
  entries) and output collection still yields an artifact, the job is \<^verbatim>\<open>completed\<close>
  with the artifacts, and the error entries of the monitor (followed by those of
  collection) are its \<^verbatim>\<open>warnings\<close>.
\<close>

theorem error_with_artifacts_completes:
  assumes "reaches_monitoring w req prompt_id"
    and "monitor_execution cfg (job_ws_url w) prompt_id (frames w) =
           Some (Returns (False, exec_errors), rest)"
    and "history_get w prompt_id = Inr hist" "map_of hist prompt_id = Some entry"
    and "process_outputs w (case entry of None \<Rightarrow> [] | Some outs \<Rightarrow> outs) (upload_urls req) =
           Returns (output_data, output_errors)"
    and "output_data \<noteq> []"
  shows "exec_errors \<noteq> [] \<and>
         execute_job cfg w job_id req =
           Some [(''status'', JStr ''completed''), (''images'', JList output_data),
                 (''warnings'', JList (map JStr (exec_errors @ output_errors)))]"
proof -
  have e: "exec_errors \<noteq> []"
    using monitor_returns_done_or_errors[OF assms(2)] by simp
  have n: "\<not> (output_data = [] \<and> exec_errors @ output_errors \<noteq> [])"
    using assms(6) by simp
  have "execute_job cfg w job_id req =
          Some (completed_result output_data (exec_errors @ output_errors))"
    by (rule execute_job_collects[OF assms(1,2) collect_outputs_completed[OF assms(3,4,5) n]])
  then show ?thesis using e by (simp add: completed_result_def)
qed


theorem error_with_artifacts_completes_witness:
  "[''Node 3 (KSampler): OOM''] \<noteq> [] \<and>
   execute_job example_config
     (quiet_world\<lparr>frames := fails_P1, history_get := serves_one_image\<rparr>) ''j1'' plain_request =
     Some [(''status'', JStr ''completed''),
           (''images'', JList [JDict [(''filename'', JStr ''out.png''),
                                      (''type'', JStr ''base64''), (''data'', JStr ''TWFu'')]]),
           (''warnings'', JList [JStr ''Node 3 (KSampler): OOM''])]"
proof -
  let ?w = "quiet_world\<lparr>frames := fails_P1, history_get := serves_one_image\<rparr>"
  have m: "monitor_execution example_config (job_ws_url ?w) ''P1'' (frames ?w) =
          Some (Returns (False, [''Node 3 (KSampler): OOM'']), sconst RecvTimeout)"
    using monitor_error_P1[of example_config example_ws_url "sconst RecvTimeout"]
    by (simp add: quiet_ws_url fails_P1_def)
  have h: "history_get ?w ''P1'' = Inr one_image_history"
    "map_of one_image_history ''P1'' = Some (Some [(''9'', [(''images'', [tmp_png, out_png])])])"
    by (simp_all add: serves_one_image_def one_image_history_def)
  have f: "manifest_files [(''9'', [(''images'', [tmp_png, out_png])])] = [tmp_png, out_png]"
    by (simp add: manifest_files_def node_files_def)
  have t: "process_file ?w Map.empty 0 ([], []) tmp_png = ([], [])"
    by (rule process_file_temp) (rule example_files(3))
  have c: "collectable out_png ''out.png''" by (rule example_files(2))
  have g: "fetched ?w (Suc 0) out_png ''out.png'' = Inr ''Man''"
    by (simp add: fetched_def quiet_world_def)
  have b: "process_file ?w Map.empty (Suc 0) ([], []) out_png =
             ([base64_entry ''out.png'' ''Man''], [])"
    using process_file_inlined[where m = Map.empty, OF c g, of "[]" "[]"] by simp
  have p: "process_outputs ?w
             (case Some [(''9'', [(''images'', [tmp_png, out_png])])] of
                None \<Rightarrow> [] | Some outs \<Rightarrow> outs) (upload_urls plain_request) =
           Returns ([JDict [(''filename'', JStr ''out.png''), (''type'', JStr ''base64''),
                            (''data'', JStr ''TWFu'')]], [])"
    by (simp add: process_outputs_def upload_map_of_def plain_request_def f t b
          base64_entry_def b64_char_def b64_alphabet_def)
  from error_with_artifacts_completes
    [OF quiet_reaches(2)[where fs = fails_P1 and h = serves_one_image] m h p, of "''j1''"]
  show ?thesis by simp
qed





subsection \<open>Notification\<close>

























end
